theory Spec2Isabelle
  imports Main "HOL-Library.Sublist"
begin

section \<open>Request dispatcher (src/utils/request.js)\<close>

text \<open>
  The dispatcher talks to three collaborators: the account manager (account.js), the
  upstream chat service (through axios) and the logger. None of them is part of the
  verified code. They are parameters of the model: a record of operations on a world
  state \<open>'w\<close>, which may answer every call in any way. The model itself keeps a trace
  of every call it makes, together with the answer it got, so that statements such as
  "no HTTP call is issued" or "the failure is reported to the account manager" are
  statements about the trace.
\<close>

subsection \<open>Values\<close>

type_synonym email = string
type_synonym token = string
type_synonym proxy = string
type_synonym chat_id = string
type_synonym payload = string

text \<open>A JavaScript error object: the optional \<open>code\<close> property and the message.\<close>

record js_error =
  err_code :: "string option"
  err_message :: string

text \<open>What \<open>getNextAccount\<close> hands out: \<open>{ token, email }\<close>.\<close>

record account_info =
  acc_token :: token
  acc_email :: email

text \<open>The request body; the dispatcher reads \<open>body.stream\<close> and \<open>body.model\<close> only.\<close>

record chat_body =
  body_stream :: bool
  body_model :: string
  body_rest :: string

text \<open>The axios response of the completion call: \<open>response.status\<close>, \<open>response.data\<close>.\<close>

record http_response =
  http_status :: int
  http_data :: payload

text \<open>The value returned by \<open>sendChatRequest\<close>. The failure object has no
  \<open>currentToken\<close> property.\<close>

record result =
  status :: bool
  response :: "payload option"
  currentToken :: "token option"

text \<open>The request sent to \<open>/api/v2/chats/new\<close> and to \<open>/api/v2/chat/completions\<close>:
  bearer token, the agent built from the proxy (if any), and what the body carries. The
  fixed headers, the cookie taken from the configuration, the time-out of 60 seconds and
  the response type chosen from \<open>body.stream\<close> are left out: they reach the upstream
  service only, whose answer is arbitrary in the model.\<close>

record new_chat_request =
  nc_token :: token
  nc_model :: string
  nc_agent :: "proxy option"

record completion_request =
  cr_token :: token
  cr_chat_id :: chat_id
  cr_body :: chat_body
  cr_agent :: "proxy option"

subsection \<open>JavaScript primitives\<close>

text \<open>Truthiness of a value that is a string, \<open>null\<close> or \<open>undefined\<close>: the empty
  string is falsy.\<close>

definition truthy :: "string option \<Rightarrow> bool" where
  "truthy v = (case v of None \<Rightarrow> False | Some s \<Rightarrow> s \<noteq> [])"

text \<open>\<open>s.includes(sub)\<close> on strings.\<close>

fun str_includes :: "string \<Rightarrow> string \<Rightarrow> bool" where
  "str_includes [] sub = (sub = [])"
| "str_includes (c # cs) sub = (prefix sub (c # cs) \<or> str_includes cs sub)"

definition networkErrorCodes :: "string list" where
  "networkErrorCodes =
     [''ECONNRESET'', ''ECONNREFUSED'', ''ETIMEDOUT'', ''ENOTFOUND'', ''ENETUNREACH'', ''EAI_AGAIN'']"

text \<open>The test of lines 92 and 169 without its \<open>proxy &&\<close> part:
  \<open>networkErrorCodes.includes(error.code) || error.message.includes('timeout') ||
  error.message.includes('ECONN') || error.message.includes('socket')\<close>.
  An error without a code has \<open>error.code === undefined\<close>, which is in no list.\<close>

definition isNetworkError :: "js_error \<Rightarrow> bool" where
  "isNetworkError error =
     ((case err_code error of None \<Rightarrow> False | Some c \<Rightarrow> c \<in> set networkErrorCodes)
      \<or> str_includes (err_message error) ''timeout''
      \<or> str_includes (err_message error) ''ECONN''
      \<or> str_includes (err_message error) ''socket'')"

text \<open>The whole condition: \<open>proxy && (...)\<close>.\<close>

definition retryable :: "proxy option \<Rightarrow> js_error \<Rightarrow> bool" where
  "retryable proxy error = (truthy proxy \<and> isNetworkError error)"

definition MAX_RETRIES :: nat where
  "MAX_RETRIES = 3"

text \<open>The errors the dispatcher creates itself.\<close>

definition invalidResponseError :: js_error where
  "invalidResponseError =
     \<lparr>err_code = None, err_message = ''Invalid response data when generating chat_id''\<rparr>"

text \<open>Decimal rendering of a number inside a template literal.\<close>

fun string_of_nat :: "nat \<Rightarrow> string" where
  "string_of_nat n =
     (if n < 10 then [char_of (48 + n)]
      else string_of_nat (n div 10) @ [char_of (48 + n mod 10)])"

definition string_of_int :: "int \<Rightarrow> string" where
  "string_of_int i = (if i < 0 then CHR ''-'' # string_of_nat (nat (- i)) else string_of_nat (nat i))"

definition statusError :: "int \<Rightarrow> js_error" where
  "statusError n =
     \<lparr>err_code = None, err_message = ''Request failed with status code '' @ string_of_int n\<rparr>"

text \<open>Reading \<open>lastError.message\<close> while \<open>lastError\<close> is still \<open>null\<close> throws.\<close>

definition nullMessageError :: js_error where
  "nullMessageError =
     \<lparr>err_code = None, err_message = ''Cannot read properties of null (reading message)''\<rparr>"

subsection \<open>Trace and collaborators\<close>

text \<open>One constructor for each log call of the file, with the values the message
  interpolates. Where the message shows the host name parsed out of the proxy URL, the
  entry carries the proxy itself.\<close>

datatype log_entry =
    LogNoAccount
  | LogAgentFailed string proxy js_error
  | LogNoChatId
  | LogSending email nat
  | LogSendFailed email "proxy option" nat js_error
  | LogProxyRetry
  | LogSendFinal string
  | LogGenFailed email "proxy option" nat js_error
  | LogGenFinal string

datatype event =
    GetNextAccount "account_info option"
  | GetProxyForAccount email "proxy option"
  | HandleNetworkFailure email proxy
  | PostNewChat new_chat_request "js_error + chat_id option"
  | PostCompletion completion_request "js_error + http_response"
  | Log log_entry

text \<open>
  Modelled from the spec: account.js is not among the sources, so the three operations of
  the account manager are taken with the signatures the specification gives them:
  \<open>getNextAccount() -> Account | none\<close>, \<open>getProxyForAccount(email) -> proxyURL | none\<close>,
  \<open>handleNetworkFailure(email, proxyURL) -> void\<close>. Each reads and updates the world.
  \<open>axios.post\<close> either throws an error or returns a response; for the session call the
  model keeps of the response the value of \<open>response_data.data?.data?.id\<close> (\<open>None\<close> when the
  chain ends in \<open>undefined\<close>). \<open>new SocksProxyAgent(proxy)\<close> throws or gives an agent.
\<close>

record 'w env =
  getNextAccount :: "'w \<Rightarrow> account_info option \<times> 'w"
  getProxyForAccount :: "email \<Rightarrow> 'w \<Rightarrow> proxy option \<times> 'w"
  handleNetworkFailure :: "email \<Rightarrow> proxy \<Rightarrow> 'w \<Rightarrow> 'w"
  postNewChat :: "new_chat_request \<Rightarrow> 'w \<Rightarrow> (js_error + chat_id option) \<times> 'w"
  postCompletion :: "completion_request \<Rightarrow> 'w \<Rightarrow> (js_error + http_response) \<times> 'w"
  SocksProxyAgent :: "proxy \<Rightarrow> js_error option"

text \<open>The state threaded through the dispatcher: the world and the trace so far.\<close>

type_synonym 'w st = "'w \<times> event list"

definition emit :: "event \<Rightarrow> 'w st \<Rightarrow> 'w st" where
  "emit e st = (fst st, snd st @ [e])"

definition logger :: "log_entry \<Rightarrow> 'w st \<Rightarrow> 'w st" where
  "logger l st = emit (Log l) st"

definition callGetNextAccount :: "'w env \<Rightarrow> 'w st \<Rightarrow> account_info option \<times> 'w st" where
  "callGetNextAccount env st =
     (let (a, w) = getNextAccount env (fst st) in (a, emit (GetNextAccount a) (w, snd st)))"

definition callGetProxyForAccount :: "'w env \<Rightarrow> email \<Rightarrow> 'w st \<Rightarrow> proxy option \<times> 'w st" where
  "callGetProxyForAccount env email st =
     (let (p, w) = getProxyForAccount env email (fst st)
      in (p, emit (GetProxyForAccount email p) (w, snd st)))"

definition callHandleNetworkFailure :: "'w env \<Rightarrow> email \<Rightarrow> proxy \<Rightarrow> 'w st \<Rightarrow> 'w st" where
  "callHandleNetworkFailure env email proxy st =
     emit (HandleNetworkFailure email proxy) (handleNetworkFailure env email proxy (fst st), snd st)"

definition callPostNewChat ::
  "'w env \<Rightarrow> new_chat_request \<Rightarrow> 'w st \<Rightarrow> (js_error + chat_id option) \<times> 'w st" where
  "callPostNewChat env req st =
     (let (r, w) = postNewChat env req (fst st) in (r, emit (PostNewChat req r) (w, snd st)))"

definition callPostCompletion ::
  "'w env \<Rightarrow> completion_request \<Rightarrow> 'w st \<Rightarrow> (js_error + http_response) \<times> 'w st" where
  "callPostCompletion env req st =
     (let (r, w) = postCompletion env req (fst st) in (r, emit (PostCompletion req r) (w, snd st)))"

text \<open>Lines 46-54 and 133-141: an agent is built when the proxy is truthy; a failure to
  build it is logged, with the name of the function in the message, and the request goes
  out without an agent.\<close>

definition makeAgent :: "'w env \<Rightarrow> string \<Rightarrow> proxy option \<Rightarrow> 'w st \<Rightarrow> proxy option \<times> 'w st" where
  "makeAgent env caller proxy st =
     (if truthy proxy then
        (case SocksProxyAgent env (the proxy) of
           None \<Rightarrow> (proxy, st)
         | Some agentError \<Rightarrow> (None, logger (LogAgentFailed caller (the proxy) agentError) st))
      else (None, st))"

subsection \<open>Phase A: generateChatID\<close>

text \<open>One pass through the body of the loop of \<open>generateChatID\<close> ends in one of three ways:
  the function returns, the \<open>try\<close> block ends normally with \<open>lastError\<close> assigned (line 155),
  or \<open>axios.post\<close> throws into the \<open>catch\<close> block.\<close>

datatype 'a attempt = Returned 'a | Recorded js_error | Thrown js_error

definition generateChatID_try ::
  "'w env \<Rightarrow> token \<Rightarrow> string \<Rightarrow> proxy option \<Rightarrow> 'w st \<Rightarrow> chat_id option attempt \<times> 'w st" where
  "generateChatID_try env token model currentProxy st =
     (let (agent, st1) = makeAgent env ''generateChatID'' currentProxy st;
          (r, st2) = callPostNewChat env
                       \<lparr>nc_token = token, nc_model = model, nc_agent = agent\<rparr> st1
      in case r of
           Inl error \<Rightarrow> (Thrown error, st2)
         | Inr cid \<Rightarrow> if truthy cid then (Returned cid, st2)
                    else (Recorded invalidResponseError, st2))"

text \<open>Lines 181-182: the final log line reads \<open>lastError.message\<close>, then \<open>null\<close> is
  returned.\<close>

definition generateChatID_end :: "js_error option \<Rightarrow> 'w st \<Rightarrow> (js_error + chat_id option) \<times> 'w st" where
  "generateChatID_end lastError st =
     (case lastError of
        None \<Rightarrow> (Inl nullMessageError, st)
      | Some e \<Rightarrow> (Inr None, logger (LogGenFinal (err_message e)) st))"

text \<open>The loop \<open>for (attempt = 1; attempt <= MAX_RETRIES; attempt++)\<close>, with the variables
  it updates (\<open>lastError\<close>, \<open>currentProxy\<close>) as arguments. \<open>Inl\<close> is an exception leaving
  \<open>generateChatID\<close>, \<open>Inr None\<close> the return value \<open>null\<close>.\<close>

function generateChatID_loop ::
  "'w env \<Rightarrow> nat \<Rightarrow> js_error option \<Rightarrow> token \<Rightarrow> string \<Rightarrow> email \<Rightarrow> proxy option \<Rightarrow> 'w st
     \<Rightarrow> (js_error + chat_id option) \<times> 'w st" where
  "generateChatID_loop env attempt lastError token model email currentProxy st =
     (if attempt \<le> MAX_RETRIES then
        (case generateChatID_try env token model currentProxy st of
           (Returned cid, st1) \<Rightarrow> (Inr cid, st1)
         | (Recorded e, st1) \<Rightarrow>
             generateChatID_loop env (attempt + 1) (Some e) token model email currentProxy st1
         | (Thrown error, st1) \<Rightarrow>
             (let st2 = logger (LogGenFailed email currentProxy attempt error) st1 in
              if retryable currentProxy error then
                (let st3 = logger LogProxyRetry st2;
                     st4 = callHandleNetworkFailure env email (the currentProxy) st3;
                     (newProxy, st5) = callGetProxyForAccount env email st4
                 in generateChatID_loop env (attempt + 1) (Some error) token model email
                      newProxy st5)
              else generateChatID_end (Some error) st2))
      else generateChatID_end lastError st)"
  by pat_completeness auto
termination
  by (relation "measure (\<lambda>(env, attempt, rest). MAX_RETRIES + 1 - attempt)") auto

definition generateChatID ::
  "'w env \<Rightarrow> token \<Rightarrow> string \<Rightarrow> email \<Rightarrow> proxy option \<Rightarrow> 'w st
     \<Rightarrow> (js_error + chat_id option) \<times> 'w st" where
  "generateChatID env initialToken model email initialProxy st =
     generateChatID_loop env 1 None initialToken model email initialProxy st"

subsection \<open>Phase B: sendChatRequest\<close>

definition failure :: result where
  "failure = \<lparr>status = False, response = None, currentToken = None\<rparr>"

text \<open>Lines 30-78, the \<open>try\<close> block of one pass of the outer loop.\<close>

definition sendChatRequest_try ::
  "'w env \<Rightarrow> chat_body \<Rightarrow> nat \<Rightarrow> token \<Rightarrow> email \<Rightarrow> proxy option \<Rightarrow> 'w st
     \<Rightarrow> result attempt \<times> 'w st" where
  "sendChatRequest_try env body attempt token email proxy st =
     (let (agent, st1) = makeAgent env ''sendChatRequest'' proxy st in
      case generateChatID env token (body_model body) email proxy st1 of
        (Inl error, st2) \<Rightarrow> (Thrown error, st2)
      | (Inr chat_id, st2) \<Rightarrow>
          if \<not> truthy chat_id then (Returned failure, logger LogNoChatId st2)
          else
            (let st3 = logger (LogSending email attempt) st2;
                 (r, st4) = callPostCompletion env
                              \<lparr>cr_token = token, cr_chat_id = the chat_id,
                               cr_body = body, cr_agent = agent\<rparr> st3
             in case r of
                  Inl error \<Rightarrow> (Thrown error, st4)
                | Inr resp \<Rightarrow>
                    if http_status resp = 200 then
                      (Returned \<lparr>status = True, response = Some (http_data resp),
                                 currentToken = Some token\<rparr>, st4)
                    else (Recorded (statusError (http_status resp)), st4)))"

text \<open>Lines 104-105.\<close>

definition sendChatRequest_end :: "js_error option \<Rightarrow> 'w st \<Rightarrow> (js_error + result) \<times> 'w st" where
  "sendChatRequest_end lastError st =
     (case lastError of
        None \<Rightarrow> (Inl nullMessageError, st)
      | Some e \<Rightarrow> (Inr failure, logger (LogSendFinal (err_message e)) st))"

text \<open>The outer loop, lines 19-102. \<open>Inl\<close> is an exception leaving \<open>sendChatRequest\<close>.\<close>

function sendChatRequest_loop ::
  "'w env \<Rightarrow> chat_body \<Rightarrow> nat \<Rightarrow> js_error option \<Rightarrow> 'w st \<Rightarrow> (js_error + result) \<times> 'w st" where
  "sendChatRequest_loop env body attempt lastError st =
     (if attempt \<le> MAX_RETRIES then
        (case callGetNextAccount env st of
           (None, st1) \<Rightarrow> (Inr failure, logger LogNoAccount st1)
         | (Some accountInfo, st1) \<Rightarrow>
             (let token = acc_token accountInfo;
                  email = acc_email accountInfo;
                  (proxy, st2) = callGetProxyForAccount env email st1
              in case sendChatRequest_try env body attempt token email proxy st2 of
                   (Returned r, st3) \<Rightarrow> (Inr r, st3)
                 | (Recorded e, st3) \<Rightarrow> sendChatRequest_loop env body (attempt + 1) (Some e) st3
                 | (Thrown error, st3) \<Rightarrow>
                     (let st4 = logger (LogSendFailed email proxy attempt error) st3 in
                      if retryable proxy error then
                        (let st5 = logger LogProxyRetry st4;
                             st6 = callHandleNetworkFailure env email (the proxy) st5
                         in sendChatRequest_loop env body (attempt + 1) (Some error) st6)
                      else sendChatRequest_end (Some error) st4)))
      else sendChatRequest_end lastError st)"
  by pat_completeness auto
termination
  by (relation "measure (\<lambda>(env, body, attempt, rest). MAX_RETRIES + 1 - attempt)") auto

definition sendChatRequest :: "'w env \<Rightarrow> chat_body \<Rightarrow> 'w st \<Rightarrow> (js_error + result) \<times> 'w st" where
  "sendChatRequest env body st = sendChatRequest_loop env body 1 None st"

subsection \<open>Reading the trace\<close>

text \<open>The answers of \<open>getNextAccount\<close> in a trace, in order.\<close>

fun selections :: "event list \<Rightarrow> account_info option list" where
  "selections [] = []"
| "selections (GetNextAccount a # es) = a # selections es"
| "selections (e # es) = selections es"

text \<open>The session-creation calls in a trace, in order.\<close>

fun newChatCalls :: "event list \<Rightarrow> new_chat_request list" where
  "newChatCalls [] = []"
| "newChatCalls (PostNewChat req r # es) = req # newChatCalls es"
| "newChatCalls (e # es) = newChatCalls es"

text \<open>The success object of lines 70-74 for a token and a response.\<close>

definition success :: "token \<Rightarrow> http_response \<Rightarrow> result" where
  "success token resp =
     \<lparr>status = True, response = Some (http_data resp), currentToken = Some token\<rparr>"

text \<open>\<open>delivered new r\<close>: the events \<open>new\<close> of a dispatch end with a completion call that
  was answered with HTTP 200, and \<open>r\<close> is the success object made of that answer's payload
  and of the token of the account selected last.\<close>

definition delivered :: "event list \<Rightarrow> result \<Rightarrow> bool" where
  "delivered new r =
     (new \<noteq> [] \<and> selections new \<noteq> [] \<and>
      (case last new of
         PostCompletion req (Inr resp) \<Rightarrow>
           (case last (selections new) of
              Some accountInfo \<Rightarrow>
                http_status resp = 200 \<and> r = success (acc_token accountInfo) resp
            | None \<Rightarrow> False)
       | _ \<Rightarrow> False))"

subsection \<open>A scripted world\<close>

text \<open>
  A concrete world for running the dispatcher: the answers of \<open>getNextAccount\<close> and of the
  two HTTP calls are read off scripts, the proxy bindings are a table, and
  \<open>handleNetworkFailure\<close> rebinds the account to the next spare proxy (to none when the
  spares are used up). A call beyond the end of an HTTP script throws \<open>scriptEnd\<close>.
\<close>

record world =
  accountScript :: "account_info option list"
  bindings :: "(email \<times> proxy option) list"
  spares :: "proxy list"
  newChatScript :: "(js_error + chat_id option) list"
  completionScript :: "(js_error + http_response) list"

definition scriptEnd :: js_error where
  "scriptEnd = \<lparr>err_code = None, err_message = ''script exhausted''\<rparr>"

definition scripted :: "world env" where
  "scripted =
     \<lparr>getNextAccount = (\<lambda>w. case accountScript w of
                               [] \<Rightarrow> (None, w)
                             | a # as \<Rightarrow> (a, w\<lparr>accountScript := as\<rparr>)),
      getProxyForAccount = (\<lambda>email w. (case map_of (bindings w) email of
                                           None \<Rightarrow> None | Some p \<Rightarrow> p, w)),
      handleNetworkFailure = (\<lambda>email proxy w. case spares w of
                               [] \<Rightarrow> w\<lparr>bindings := (email, None) # bindings w\<rparr>
                             | p # ps \<Rightarrow> w\<lparr>bindings := (email, Some p) # bindings w, spares := ps\<rparr>),
      postNewChat = (\<lambda>req w. case newChatScript w of
                               [] \<Rightarrow> (Inl scriptEnd, w)
                             | r # rs \<Rightarrow> (r, w\<lparr>newChatScript := rs\<rparr>)),
      postCompletion = (\<lambda>req w. case completionScript w of
                               [] \<Rightarrow> (Inl scriptEnd, w)
                             | r # rs \<Rightarrow> (r, w\<lparr>completionScript := rs\<rparr>)),
      SocksProxyAgent = (\<lambda>p. None)\<rparr>"

definition alice :: account_info where
  "alice = \<lparr>acc_token = ''tok-a'', acc_email = ''a@x''\<rparr>"

definition bob :: account_info where
  "bob = \<lparr>acc_token = ''tok-b'', acc_email = ''b@x''\<rparr>"

definition hello :: chat_body where
  "hello = \<lparr>body_stream = False, body_model = ''qwen'', body_rest = ''hi''\<rparr>"

definition econnreset :: js_error where
  "econnreset = \<lparr>err_code = Some ''ECONNRESET'', err_message = ''read ECONNRESET''\<rparr>"

definition badRequest :: js_error where
  "badRequest = \<lparr>err_code = Some ''ERR_BAD_REQUEST'',
                  err_message = ''Request failed with status code 400''\<rparr>"

text \<open>The answers to the completion calls and the failures reported to the account
  manager, as they appear in a trace.\<close>

fun completionAnswers :: "event list \<Rightarrow> (js_error + http_response) list" where
  "completionAnswers [] = []"
| "completionAnswers (PostCompletion req r # es) = r # completionAnswers es"
| "completionAnswers (e # es) = completionAnswers es"

fun reports :: "event list \<Rightarrow> (email \<times> proxy) list" where
  "reports [] = []"
| "reports (HandleNetworkFailure email proxy # es) = (email, proxy) # reports es"
| "reports (e # es) = reports es"

definition p1 :: proxy where "p1 = ''socks5://p1:1080''"
definition p2 :: proxy where "p2 = ''socks5://p2:1080''"
definition p3 :: proxy where "p3 = ''socks5://p3:1080''"

definition ok200 :: http_response where
  "ok200 = \<lparr>http_status = 200, http_data = ''answer''\<rparr>"

definition empty204 :: http_response where
  "empty204 = \<lparr>http_status = 204, http_data = []\<rparr>"

text \<open>Session creation fails once on the first proxy; the completion fails once with a
  connection reset and succeeds for the second account.\<close>

definition rotating :: world where
  "rotating =
     \<lparr>accountScript = [Some alice, Some bob],
      bindings = [(''a@x'', Some p1), (''b@x'', Some p2)], spares = [p3],
      newChatScript = [Inl econnreset, Inr (Some ''chat-1''), Inr (Some ''chat-2'')],
      completionScript = [Inl econnreset, Inr ok200]\<rparr>"

text \<open>Three connection resets in a row on session creation.\<close>

definition flaky :: world where
  "flaky =
     \<lparr>accountScript = [Some alice], bindings = [(''a@x'', Some p1)], spares = [p2, p3],
      newChatScript = [Inl econnreset, Inl econnreset, Inl econnreset],
      completionScript = []\<rparr>"

text \<open>The first answer to the session call carries no identifier, the second does. No
  proxy is bound.\<close>

definition malformedOnce :: world where
  "malformedOnce =
     \<lparr>accountScript = [Some alice], bindings = [], spares = [],
      newChatScript = [Inr None, Inr (Some ''chat-2'')],
      completionScript = [Inr ok200]\<rparr>"

text \<open>The session call is rejected with HTTP 400 (no network error), a proxy being bound.\<close>

definition rejecting :: world where
  "rejecting =
     \<lparr>accountScript = [Some alice, Some bob], bindings = [(''a@x'', Some p1)], spares = [p2],
      newChatScript = [Inl badRequest, Inr (Some ''chat-2'')],
      completionScript = [Inr ok200]\<rparr>"

text \<open>The completion call is rejected with HTTP 400.\<close>

definition refusing :: world where
  "refusing =
     \<lparr>accountScript = [Some alice, Some bob], bindings = [(''a@x'', Some p1)], spares = [p2],
      newChatScript = [Inr (Some ''chat-1''), Inr (Some ''chat-2'')],
      completionScript = [Inl badRequest, Inr ok200]\<rparr>"

text \<open>The first completion is answered with HTTP 204, the second with HTTP 200.\<close>

definition noContentOnce :: world where
  "noContentOnce =
     \<lparr>accountScript = [Some alice, Some bob],
      bindings = [(''a@x'', Some p1), (''b@x'', Some p2)], spares = [p3],
      newChatScript = [Inr (Some ''chat-1''), Inr (Some ''chat-2'')],
      completionScript = [Inr empty204, Inr ok200]\<rparr>"

text \<open>No account has a usable token.\<close>

definition deserted :: world where
  "deserted =
     \<lparr>accountScript = [], bindings = [], spares = [],
      newChatScript = [Inr (Some ''chat-1'')], completionScript = [Inr ok200]\<rparr>"

section \<open>Persistence store (src/utils/data-persistence.js)\<close>

text \<open>
  The file holds two versions of the class \<open>DataPersistence\<close>, one after the other. They
  share \<open>_saveData\<close>, \<open>_getDefaultData\<close> and the text of the accessors and differ in
  \<open>_initialize\<close> and \<open>_getData\<close>. Both are modelled; the functions of the second version
  carry the suffix \<open>V2\<close>.
\<close>

subsection \<open>The document\<close>

text \<open>
  A primitive JavaScript value, and an object as a map from the names of its own
  properties to such values. The persisted document is an object with up to four
  properties; \<open>None\<close> stands for a property that is missing (or falsy), as in a file
  written by another tool. An account is an object with the property \<open>email\<close> among
  others; a proxy binding is a URL or \<open>null\<close>.
\<close>

datatype jsval = JNull | JBool bool | JNum int | JStr string

type_synonym jsobject = "string \<rightharpoonup> jsval"

text \<open>
  The two objects the class assigns to by key, \<open>data.proxyBindings[email] = proxyUrl\<close> and
  \<open>data.settings[key] = value\<close>, carry their prototype as well, because the assignment
  depends on it: \<open>plain\<close> says that the prototype is \<open>Object.prototype\<close>, as it is for an
  object literal and for every object made by \<open>JSON.parse\<close>; otherwise it is \<open>null\<close>.
\<close>

record 'v dict =
  own :: "string \<rightharpoonup> 'v"
  plain :: bool

text \<open>The object literal \<open>{}\<close>.\<close>

definition emptyObject :: "'v dict" where
  "emptyObject = \<lparr>own = Map.empty, plain = True\<rparr>"

text \<open>
  \<open>obj[key] = value\<close> on such an object. An own property is overwritten. Otherwise the
  prototype chain is searched: \<open>Object.prototype\<close> has the accessor \<open>__proto__\<close> and no
  other setter, so on a plain object the key \<open>__proto__\<close> calls that setter, which makes
  \<open>null\<close> the prototype when the value is \<open>null\<close>, does nothing for any other primitive
  value, and creates no own property either way. Every other key, and every key of an
  object without prototype, becomes a new own property. \<open>isNull\<close> tells whether a value is
  \<open>null\<close>; the values here are primitive.
\<close>

definition assignProperty :: "('v \<Rightarrow> bool) \<Rightarrow> 'v dict \<Rightarrow> string \<Rightarrow> 'v \<Rightarrow> 'v dict" where
  "assignProperty isNull obj key v =
     (if own obj key \<noteq> None then obj\<lparr>own := (own obj)(key \<mapsto> v)\<rparr>
      else if key = ''__proto__'' \<and> plain obj then
        (if isNull v then obj\<lparr>plain := False\<rparr> else obj)
      else obj\<lparr>own := (own obj)(key \<mapsto> v)\<rparr>)"

record document =
  accounts :: "jsobject list option"
  proxyBindings :: "string option dict option"
  proxyStatuses :: "(string \<rightharpoonup> jsobject) option"
  settings :: "jsval dict option"

definition getDefaultData :: document where
  "getDefaultData =
     \<lparr>accounts = Some [], proxyBindings = Some emptyObject, proxyStatuses = Some Map.empty,
      settings = Some emptyObject\<rparr>"

text \<open>The \<open>TypeError\<close> of \<open>data.accounts.findIndex(...)\<close> and of
  \<open>data.proxyBindings[email] = ...\<close> when the property is missing.\<close>

definition undefinedPropertyError :: js_error where
  "undefinedPropertyError =
     \<lparr>err_code = None, err_message = ''Cannot read properties of undefined''\<rparr>"

subsection \<open>The backing store\<close>

text \<open>
  The file system (\<open>fs.promises\<close>), the cache client (redis.js, not among the sources) and
  the JSON codec are parameters: operations on a world \<open>'f\<close> that may answer in any way,
  over stored texts of type \<open>'t\<close>. Each read or write either throws (an error value) or
  succeeds. \<open>redis_get\<close> answers \<open>null\<close> (\<open>None\<close>) for an absent key; \<open>nonempty\<close> is the
  truthiness of a stored text. \<open>JSON_parse\<close> throws or yields a document, \<open>None\<close> for a
  falsy value such as \<open>null\<close>. The store object keeps a trace of the calls it makes and of
  its log lines.
\<close>

datatype plog =
    LogCreatingDefault
  | LogDefaultCreated
  | LogInitDone string
  | LogInitFailed js_error
  | LogSaveFailed js_error
  | LogLoadFailed js_error

datatype 't io_event =
    ReadFile "js_error + 't"
  | Mkdir "js_error option"
  | WriteFile 't "js_error option"
  | RedisGet "js_error + 't option"
  | RedisSet 't "js_error option"
  | PLog plog

record ('f, 't) io =
  readFile :: "'f \<Rightarrow> (js_error + 't) \<times> 'f"
  mkdir :: "'f \<Rightarrow> js_error option \<times> 'f"
  writeFile :: "'t \<Rightarrow> 'f \<Rightarrow> js_error option \<times> 'f"
  redis_get :: "'f \<Rightarrow> (js_error + 't option) \<times> 'f"
  redis_set :: "'t \<Rightarrow> 'f \<Rightarrow> js_error option \<times> 'f"
  JSON_parse :: "'t \<Rightarrow> js_error + document option"
  JSON_stringify :: "document \<Rightarrow> 't"
  nonempty :: "'t \<Rightarrow> bool"

text \<open>The settled state of \<open>this.initializationPromise\<close>.\<close>

datatype promise = Resolved | Rejected js_error

text \<open>The fields of the object (\<open>mode\<close>, \<open>cache\<close> with \<open>None\<close> for \<open>null\<close>, \<open>isInitialized\<close>,
  \<open>initializationPromise\<close>) together with the world it runs in and its trace. The second
  version has no field \<open>isInitialized\<close> and does not touch it.\<close>

record ('f, 't) store =
  mode :: string
  cache :: "document option"
  isInitialized :: bool
  initializationPromise :: promise
  backend :: 'f
  io_trace :: "'t io_event list"

definition tell :: "'t io_event \<Rightarrow> ('f, 't) store \<Rightarrow> ('f, 't) store" where
  "tell e s = s\<lparr>io_trace := io_trace s @ [e]\<rparr>"

definition doReadFile :: "('f, 't) io \<Rightarrow> ('f, 't) store \<Rightarrow> (js_error + 't) \<times> ('f, 't) store" where
  "doReadFile io s = (let (r, w) = readFile io (backend s) in (r, tell (ReadFile r) (s\<lparr>backend := w\<rparr>)))"

definition doMkdir :: "('f, 't) io \<Rightarrow> ('f, 't) store \<Rightarrow> js_error option \<times> ('f, 't) store" where
  "doMkdir io s = (let (r, w) = mkdir io (backend s) in (r, tell (Mkdir r) (s\<lparr>backend := w\<rparr>)))"

definition doWriteFile :: "('f, 't) io \<Rightarrow> 't \<Rightarrow> ('f, 't) store \<Rightarrow> js_error option \<times> ('f, 't) store" where
  "doWriteFile io t s =
     (let (r, w) = writeFile io t (backend s) in (r, tell (WriteFile t r) (s\<lparr>backend := w\<rparr>)))"

definition doRedisGet :: "('f, 't) io \<Rightarrow> ('f, 't) store \<Rightarrow> (js_error + 't option) \<times> ('f, 't) store" where
  "doRedisGet io s = (let (r, w) = redis_get io (backend s) in (r, tell (RedisGet r) (s\<lparr>backend := w\<rparr>)))"

definition doRedisSet :: "('f, 't) io \<Rightarrow> 't \<Rightarrow> ('f, 't) store \<Rightarrow> js_error option \<times> ('f, 't) store" where
  "doRedisSet io t s =
     (let (r, w) = redis_set io t (backend s) in (r, tell (RedisSet t r) (s\<lparr>backend := w\<rparr>)))"

subsection \<open>First version of the class (lines 6-130)\<close>

text \<open>\<open>_saveData\<close>, lines 56-68 (and again lines 187-199): the cache is set first; an error
  of \<open>mkdir\<close>, \<open>writeFile\<close> or \<open>redis.set\<close> is caught and logged.\<close>

definition saveData :: "('f, 't) io \<Rightarrow> document \<Rightarrow> ('f, 't) store \<Rightarrow> ('f, 't) store" where
  "saveData io data s =
     (let s1 = s\<lparr>cache := Some data\<rparr> in
      if mode s1 = ''file'' then
        (case doMkdir io s1 of
           (Some error, s2) \<Rightarrow> tell (PLog (LogSaveFailed error)) s2
         | (None, s2) \<Rightarrow>
             (case doWriteFile io (JSON_stringify io data) s2 of
                (Some error, s3) \<Rightarrow> tell (PLog (LogSaveFailed error)) s3
              | (None, s3) \<Rightarrow> s3))
      else if mode s1 = ''redis'' then
        (case doRedisSet io (JSON_stringify io data) s1 of
           (Some error, s2) \<Rightarrow> tell (PLog (LogSaveFailed error)) s2
         | (None, s2) \<Rightarrow> s2)
      else s1)"

text \<open>Lines 42-43 and 44-47: the two ways \<open>_initialize\<close> ends.\<close>

definition initialize_ok :: "('f, 't) store \<Rightarrow> promise \<times> ('f, 't) store" where
  "initialize_ok s = (Resolved, tell (PLog (LogInitDone (mode s))) (s\<lparr>isInitialized := True\<rparr>))"

definition initialize_catch :: "js_error \<Rightarrow> ('f, 't) store \<Rightarrow> promise \<times> ('f, 't) store" where
  "initialize_catch error s =
     (Rejected error, (tell (PLog (LogInitFailed error)) s)\<lparr>isInitialized := False\<rparr>)"

text \<open>Lines 25-34: the inner \<open>catch\<close> of the file branch.\<close>

definition initialize_readError ::
  "('f, 't) io \<Rightarrow> js_error \<Rightarrow> ('f, 't) store \<Rightarrow> promise \<times> ('f, 't) store" where
  "initialize_readError io error s =
     (if err_code error = Some ''ENOENT'' then
        (let s1 = tell (PLog LogCreatingDefault) s;
             defaultData = getDefaultData;
             s2 = saveData io defaultData s1;
             s3 = tell (PLog LogDefaultCreated) s2
         in initialize_ok s3)
      else initialize_catch error s)"

text \<open>\<open>_initialize\<close>, lines 15-49. The result is the way the returned promise settles.\<close>

definition initialize :: "('f, 't) io \<Rightarrow> ('f, 't) store \<Rightarrow> promise \<times> ('f, 't) store" where
  "initialize io s =
     (if isInitialized s then (Resolved, s)
      else if mode s = ''file'' then
        (case doReadFile io s of
           (Inl error, s1) \<Rightarrow> initialize_readError io error s1
         | (Inr data, s1) \<Rightarrow>
             (case JSON_parse io data of
                Inl error \<Rightarrow> initialize_readError io error s1
              | Inr d \<Rightarrow> initialize_ok (s1\<lparr>cache := d\<rparr>)))
      else if mode s = ''redis'' then
        (case doRedisGet io s of
           (Inl error, s1) \<Rightarrow> initialize_catch error s1
         | (Inr data, s1) \<Rightarrow>
             (case data of
                Some t \<Rightarrow>
                  if nonempty io t then
                    (case JSON_parse io t of
                       Inl error \<Rightarrow> initialize_catch error s1
                     | Inr d \<Rightarrow> initialize_ok (s1\<lparr>cache := d\<rparr>))
                  else initialize_ok (s1\<lparr>cache := Some getDefaultData\<rparr>)
              | None \<Rightarrow> initialize_ok (s1\<lparr>cache := Some getDefaultData\<rparr>)))
      else initialize_ok (s\<lparr>cache := Some getDefaultData\<rparr>))"

text \<open>The constructor, lines 7-13. \<open>env_mode\<close> is \<open>process.env.DATA_SAVE_MODE\<close>. The field
  \<open>initializationPromise\<close> is assigned the promise of \<open>_initialize\<close>; nothing reads the
  field before that promise settles, so the model runs \<open>_initialize\<close> to its end and then
  stores how it settled.\<close>

definition DataPersistence ::
  "('f, 't) io \<Rightarrow> string option \<Rightarrow> 'f \<Rightarrow> ('f, 't) store" where
  "DataPersistence io env_mode w =
     (let s = \<lparr>mode = (if truthy env_mode then the env_mode else ''none''), cache = None,
                isInitialized = False, initializationPromise = Resolved, backend = w,
                io_trace = []\<rparr>;
          (p, s1) = initialize io s
      in s1\<lparr>initializationPromise := p\<rparr>)"

text \<open>\<open>_getData\<close>, lines 51-54: awaiting a rejected promise rethrows its error.\<close>

definition getData :: "('f, 't) io \<Rightarrow> ('f, 't) store \<Rightarrow> (js_error + document) \<times> ('f, 't) store" where
  "getData io s =
     (case initializationPromise s of
        Rejected error \<Rightarrow> (Inl error, s)
      | Resolved \<Rightarrow> (Inr (case cache s of Some d \<Rightarrow> d | None \<Rightarrow> getDefaultData), s))"


text \<open>\<open>Array.prototype.findIndex\<close>: the first index whose element satisfies the test,
  \<open>-1\<close> when there is none.\<close>

fun findIndexFrom :: "('a \<Rightarrow> bool) \<Rightarrow> int \<Rightarrow> 'a list \<Rightarrow> int" where
  "findIndexFrom P i [] = - 1"
| "findIndexFrom P i (x # xs) = (if P x then i else findIndexFrom P (i + 1) xs)"

definition findIndex :: "('a \<Rightarrow> bool) \<Rightarrow> 'a list \<Rightarrow> int" where
  "findIndex P xs = findIndexFrom P 0 xs"

text \<open>The accessors, lines 79-129. The spread \<open>{ ...a, ...b }\<close> defines the own properties
  of \<open>a\<close> and then those of \<open>b\<close> on a new object, whatever their names: it is the map
  \<open>a ++ b\<close>.\<close>

definition loadAccounts ::
  "('f, 't) io \<Rightarrow> ('f, 't) store \<Rightarrow> (js_error + jsobject list) \<times> ('f, 't) store" where
  "loadAccounts io s =
     (case getData io s of
        (Inl error, s1) \<Rightarrow> (Inl error, s1)
      | (Inr data, s1) \<Rightarrow> (Inr (case accounts data of Some a \<Rightarrow> a | None \<Rightarrow> []), s1))"

definition saveAccount ::
  "('f, 't) io \<Rightarrow> string \<Rightarrow> jsobject \<Rightarrow> ('f, 't) store \<Rightarrow> (js_error + unit) \<times> ('f, 't) store" where
  "saveAccount io email accountData s =
     (case getData io s of
        (Inl error, s1) \<Rightarrow> (Inl error, s1)
      | (Inr data, s1) \<Rightarrow>
          (case accounts data of
             None \<Rightarrow> (Inl undefinedPropertyError, s1)
           | Some accs \<Rightarrow>
               (let index = findIndex (\<lambda>acc. acc ''email'' = Some (JStr email)) accs;
                    accs' = (if index \<noteq> - 1
                             then accs[nat index := (accs ! nat index) ++ accountData]
                             else accs @ [[''email'' \<mapsto> JStr email] ++ accountData])
                in (Inr (), saveData io (data\<lparr>accounts := Some accs'\<rparr>) s1))))"

definition loadProxyBindings ::
  "('f, 't) io \<Rightarrow> ('f, 't) store \<Rightarrow> (js_error + string option dict) \<times> ('f, 't) store" where
  "loadProxyBindings io s =
     (case getData io s of
        (Inl error, s1) \<Rightarrow> (Inl error, s1)
      | (Inr data, s1) \<Rightarrow> (Inr (case proxyBindings data of Some b \<Rightarrow> b | None \<Rightarrow> emptyObject), s1))"

definition saveProxyBinding ::
  "('f, 't) io \<Rightarrow> string \<Rightarrow> string option \<Rightarrow> ('f, 't) store
     \<Rightarrow> (js_error + unit) \<times> ('f, 't) store" where
  "saveProxyBinding io email proxyUrl s =
     (case getData io s of
        (Inl error, s1) \<Rightarrow> (Inl error, s1)
      | (Inr data, s1) \<Rightarrow>
          (case proxyBindings data of
             None \<Rightarrow> (Inl undefinedPropertyError, s1)
           | Some b \<Rightarrow>
               (Inr (), saveData io
                  (data\<lparr>proxyBindings :=
                          Some (assignProperty (\<lambda>v. v = None) b email proxyUrl)\<rparr>) s1)))"

definition loadProxyStatuses ::
  "('f, 't) io \<Rightarrow> ('f, 't) store \<Rightarrow> (js_error + (string \<rightharpoonup> jsobject)) \<times> ('f, 't) store" where
  "loadProxyStatuses io s =
     (case getData io s of
        (Inl error, s1) \<Rightarrow> (Inl error, s1)
      | (Inr data, s1) \<Rightarrow> (Inr (case proxyStatuses data of Some b \<Rightarrow> b | None \<Rightarrow> Map.empty), s1))"

definition saveProxyStatuses ::
  "('f, 't) io \<Rightarrow> (string \<rightharpoonup> jsobject) \<Rightarrow> ('f, 't) store \<Rightarrow> (js_error + unit) \<times> ('f, 't) store" where
  "saveProxyStatuses io statuses s =
     (case getData io s of
        (Inl error, s1) \<Rightarrow> (Inl error, s1)
      | (Inr data, s1) \<Rightarrow> (Inr (), saveData io (data\<lparr>proxyStatuses := Some statuses\<rparr>) s1))"

definition loadSettings ::
  "('f, 't) io \<Rightarrow> ('f, 't) store \<Rightarrow> (js_error + jsval dict) \<times> ('f, 't) store" where
  "loadSettings io s =
     (case getData io s of
        (Inl error, s1) \<Rightarrow> (Inl error, s1)
      | (Inr data, s1) \<Rightarrow> (Inr (case settings data of Some b \<Rightarrow> b | None \<Rightarrow> emptyObject), s1))"

definition saveSetting ::
  "('f, 't) io \<Rightarrow> string \<Rightarrow> jsval \<Rightarrow> ('f, 't) store \<Rightarrow> (js_error + unit) \<times> ('f, 't) store" where
  "saveSetting io key value s =
     (case getData io s of
        (Inl error, s1) \<Rightarrow> (Inl error, s1)
      | (Inr data, s1) \<Rightarrow>
          (let data1 = (case settings data of
                          None \<Rightarrow> data\<lparr>settings := Some emptyObject\<rparr>
                        | Some m \<Rightarrow> data)
           in (Inr (), saveData io
                 (data1\<lparr>settings :=
                          Some (assignProperty (\<lambda>v. v = JNull) (the (settings data1)) key value)\<rparr>)
                 s1)))"

subsection \<open>Second version of the class (lines 140-261)\<close>

text \<open>Lines 175-183, the \<open>catch\<close> of \<open>_getData\<close>, followed by the \<open>return\<close> of line 184.\<close>

definition getDataV2_catch ::
  "('f, 't) io \<Rightarrow> js_error \<Rightarrow> ('f, 't) store \<Rightarrow> document option \<times> ('f, 't) store" where
  "getDataV2_catch io error s =
     (if err_code error = Some ''ENOENT'' then
        (let s1 = tell (PLog LogCreatingDefault) s;
             s2 = saveData io getDefaultData s1;
             s3 = tell (PLog LogDefaultCreated) s2
         in (Some getDefaultData, s3))
      else (Some getDefaultData, tell (PLog (LogLoadFailed error)) s))"

text \<open>\<open>_getData\<close>, lines 160-185. The value returned in lines 169 and 173 is
  \<open>this.cache\<close>, which is \<open>null\<close> when the stored text is the JSON \<open>null\<close>.\<close>

definition getDataV2 :: "('f, 't) io \<Rightarrow> ('f, 't) store \<Rightarrow> document option \<times> ('f, 't) store" where
  "getDataV2 io s =
     (case cache s of
        Some d \<Rightarrow> (Some d, s)
      | None \<Rightarrow>
          if mode s = ''file'' then
            (case doReadFile io s of
               (Inl error, s1) \<Rightarrow> getDataV2_catch io error s1
             | (Inr data, s1) \<Rightarrow>
                 (case JSON_parse io data of
                    Inl error \<Rightarrow> getDataV2_catch io error s1
                  | Inr d \<Rightarrow> (d, s1\<lparr>cache := d\<rparr>)))
          else if mode s = ''redis'' then
            (case doRedisGet io s of
               (Inl error, s1) \<Rightarrow> getDataV2_catch io error s1
             | (Inr data, s1) \<Rightarrow>
                 (case data of
                    Some t \<Rightarrow>
                      if nonempty io t then
                        (case JSON_parse io t of
                           Inl error \<Rightarrow> getDataV2_catch io error s1
                         | Inr d \<Rightarrow> (d, s1\<lparr>cache := d\<rparr>))
                      else (Some getDefaultData, s1\<lparr>cache := Some getDefaultData\<rparr>)
                  | None \<Rightarrow> (Some getDefaultData, s1\<lparr>cache := Some getDefaultData\<rparr>)))
          else (Some getDefaultData, s))"

text \<open>\<open>_initialize\<close>, lines 149-158: \<open>_getData\<close> does not throw, so the \<open>catch\<close> is never
  entered and the promise resolves.\<close>

definition initializeV2 :: "('f, 't) io \<Rightarrow> ('f, 't) store \<Rightarrow> promise \<times> ('f, 't) store" where
  "initializeV2 io s =
     (let (d, s1) = getDataV2 io s in (Resolved, tell (PLog (LogInitDone (mode s1))) s1))"

definition DataPersistenceV2 ::
  "('f, 't) io \<Rightarrow> string option \<Rightarrow> 'f \<Rightarrow> ('f, 't) store" where
  "DataPersistenceV2 io env_mode w =
     (let s = \<lparr>mode = (if truthy env_mode then the env_mode else ''none''), cache = None,
                isInitialized = False, initializationPromise = Resolved, backend = w,
                io_trace = []\<rparr>;
          (p, s1) = initializeV2 io s
      in s1\<lparr>initializationPromise := p\<rparr>)"

subsection \<open>A concrete backing store\<close>

text \<open>
  A machine for running the store: one data file and one cache key, each absent or
  holding a text; a text is either the serialization of a value or does not parse. Writes
  to the file fail when the disk is not writable, and the cache fails when it is down.
\<close>

datatype stored = Json "document option" | Garbage

record disk =
  dataFile :: "stored option"
  redisKey :: "stored option"
  writable :: bool
  redisUp :: bool

definition enoent :: js_error where
  "enoent = \<lparr>err_code = Some ''ENOENT'', err_message = ''ENOENT: no such file or directory''\<rparr>"

definition enospc :: js_error where
  "enospc = \<lparr>err_code = Some ''ENOSPC'', err_message = ''ENOSPC: no space left on device''\<rparr>"

definition redisDown :: js_error where
  "redisDown = \<lparr>err_code = Some ''ECONNREFUSED'', err_message = ''connect ECONNREFUSED''\<rparr>"

definition syntaxError :: js_error where
  "syntaxError = \<lparr>err_code = None, err_message = ''Unexpected token in JSON at position 0''\<rparr>"

definition machine :: "(disk, stored) io" where
  "machine =
     \<lparr>readFile = (\<lambda>w. case dataFile w of None \<Rightarrow> (Inl enoent, w) | Some t \<Rightarrow> (Inr t, w)),
      mkdir = (\<lambda>w. (None, w)),
      writeFile = (\<lambda>t w. if writable w then (None, w\<lparr>dataFile := Some t\<rparr>) else (Some enospc, w)),
      redis_get = (\<lambda>w. if redisUp w then (Inr (redisKey w), w) else (Inl redisDown, w)),
      redis_set = (\<lambda>t w. if redisUp w then (None, w\<lparr>redisKey := Some t\<rparr>) else (Some redisDown, w)),
      JSON_parse = (\<lambda>t. case t of Json d \<Rightarrow> Inr d | Garbage \<Rightarrow> Inl syntaxError),
      JSON_stringify = (\<lambda>d. Json (Some d)),
      nonempty = (\<lambda>t. True)\<rparr>"

text \<open>Nothing stored yet.\<close>

definition emptyDisk :: disk where
  "emptyDisk = \<lparr>dataFile = None, redisKey = None, writable = True, redisUp = True\<rparr>"

text \<open>The file and the cache key hold text that does not parse.\<close>

definition corruptDisk :: disk where
  "corruptDisk = \<lparr>dataFile = Some Garbage, redisKey = Some Garbage, writable = True, redisUp = True\<rparr>"

text \<open>A readable data file on a disk that accepts no write, and a cache that is down.\<close>

definition fullDisk :: disk where
  "fullDisk = \<lparr>dataFile = Some (Json (Some getDefaultData)), redisKey = None, writable = False,
               redisUp = False\<rparr>"

definition doc1 :: document where
  "doc1 = getDefaultData\<lparr>settings := Some \<lparr>own = [''apiKey'' \<mapsto> JStr ''k1''], plain = True\<rparr>\<rparr>"


text \<open>A store in memory-only mode that holds two accounts, one binding and one setting.\<close>

definition accountA :: jsobject where
  "accountA = [''email'' \<mapsto> JStr ''a@x'', ''password'' \<mapsto> JStr ''pw-a'']"

definition accountB :: jsobject where
  "accountB = [''email'' \<mapsto> JStr ''b@x'', ''password'' \<mapsto> JStr ''pw-b'']"

definition doc2 :: document where
  "doc2 = \<lparr>accounts = Some [accountA, accountB],
           proxyBindings = Some \<lparr>own = [''a@x'' \<mapsto> Some p1], plain = True\<rparr>,
           proxyStatuses = Some Map.empty,
           settings = Some \<lparr>own = [''apiKey'' \<mapsto> JStr ''k1''], plain = True\<rparr>\<rparr>"

definition loaded :: "(disk, stored) store" where
  "loaded = saveData machine doc2 (DataPersistence machine None emptyDisk)"

text \<open>A data file as another tool may have written it: accounts only.\<close>

definition accountsOnly :: document where
  "accountsOnly =
     \<lparr>accounts = Some [accountA], proxyBindings = None, proxyStatuses = None, settings = None\<rparr>"

definition accountsOnlyDisk :: disk where
  "accountsOnlyDisk =
     \<lparr>dataFile = Some (Json (Some accountsOnly)), redisKey = None, writable = True, redisUp = True\<rparr>"



section \<open>Properties of the dispatcher\<close>

subsection \<open>Strings\<close>

text \<open>\<open>str_includes s sub\<close> holds exactly when \<open>sub\<close> occurs in \<open>s\<close> as a contiguous
  piece.\<close>

lemma str_includes_sublist: "str_includes s sub \<longleftrightarrow> sublist sub s"
  by (induction s) (auto simp: sublist_Cons_right)

subsection \<open>The trace only grows\<close>

lemma pair_of_fst: "fst x = a \<Longrightarrow> x = (a, snd x)"
  by (simp add: prod_eq_iff)

lemma selections_append [simp]: "selections (xs @ ys) = selections xs @ selections ys"
  by (induction xs rule: selections.induct) auto

lemma newChatCalls_append [simp]: "newChatCalls (xs @ ys) = newChatCalls xs @ newChatCalls ys"
  by (induction xs rule: newChatCalls.induct) auto

lemma snd_emit [simp]: "snd (emit e st) = snd st @ [e]"
  by (simp add: emit_def)

lemma snd_logger [simp]: "snd (logger l st) = snd st @ [Log l]"
  by (simp add: logger_def)

lemma makeAgent_trace:
  "makeAgent env caller p st = (a, st') \<Longrightarrow>
     \<exists>new. snd st' = snd st @ new \<and> selections new = [] \<and> newChatCalls new = []"
  by (auto simp: makeAgent_def split: if_splits option.splits)

lemma callPostNewChat_trace:
  "callPostNewChat env req st = (r, st') \<Longrightarrow> snd st' = snd st @ [PostNewChat req r]"
  by (auto simp: callPostNewChat_def split: prod.splits)

lemma generateChatID_try_trace:
  "generateChatID_try env tok m p st = (a, st') \<Longrightarrow>
     \<exists>new. snd st' = snd st @ new \<and> selections new = [] \<and> length (newChatCalls new) = 1"
  by (auto simp: generateChatID_try_def split: prod.splits sum.splits if_splits
        dest!: makeAgent_trace callPostNewChat_trace)


lemma generateChatID_try_Returned:
  "generateChatID_try env tok m p st = (Returned c, st') \<Longrightarrow> truthy c"
  by (auto simp: generateChatID_try_def split: prod.splits sum.splits if_splits)

lemma callHandleNetworkFailure_trace [simp]:
  "snd (callHandleNetworkFailure env email p st) = snd st @ [HandleNetworkFailure email p]"
  by (simp add: callHandleNetworkFailure_def)

lemma callGetProxyForAccount_trace:
  "callGetProxyForAccount env email st = (p, st') \<Longrightarrow> snd st' = snd st @ [GetProxyForAccount email p]"
  by (auto simp: callGetProxyForAccount_def split: prod.splits)

declare generateChatID_loop.simps [simp del]

lemma generateChatID_loop_returns:
  "attempt \<le> MAX_RETRIES \<or> lastError \<noteq> None \<Longrightarrow>
   \<exists>c st'. generateChatID_loop env attempt lastError tok m email p st = (Inr c, st')
      \<and> (c = None \<or> truthy c)
      \<and> (\<exists>new. snd st' = snd st @ new \<and> selections new = []
             \<and> length (newChatCalls new) \<le> MAX_RETRIES + 1 - attempt)"
proof (induction env attempt lastError tok m email p st rule: generateChatID_loop.induct)
  case (1 env attempt lastError tok m email p st)
  show ?case
  proof (cases "attempt \<le> MAX_RETRIES")
    case False
    with "1.prems" obtain e where "lastError = Some e" by auto
    with False show ?thesis
      by (subst generateChatID_loop.simps) (simp add: generateChatID_end_def)
  next
    case True
    obtain a st1 where t0: "generateChatID_try env tok m p st = (a, st1)"
      by (cases "generateChatID_try env tok m p st")
    from generateChatID_try_trace [OF t0]
    obtain n1 where n1: "snd st1 = snd st @ n1" "selections n1 = []" "length (newChatCalls n1) = 1"
      by blast
    show ?thesis
    proof (cases a)
      case (Returned c)
      with t0 True n1 generateChatID_try_Returned [of env tok m p st c st1] show ?thesis
        by (subst generateChatID_loop.simps) simp
    next
      case (Recorded e)
      from "1.IH"(1) [OF True t0 [symmetric] Recorded]
      obtain c st' n2 where
        "generateChatID_loop env (attempt + 1) (Some e) tok m email p st1 = (Inr c, st')"
        "c = None \<or> truthy c" "snd st' = snd st1 @ n2" "selections n2 = []"
        "length (newChatCalls n2) \<le> MAX_RETRIES + 1 - (attempt + 1)"
        by auto
      with t0 True n1 Recorded show ?thesis
        by (subst generateChatID_loop.simps) simp
    next
      case (Thrown error)
      show ?thesis
      proof (cases "retryable p error")
        case False
        with t0 True n1 Thrown show ?thesis
          by (subst generateChatID_loop.simps) (simp add: generateChatID_end_def)
      next
        case rt: True
        define st2 where "st2 = logger (LogGenFailed email p attempt error) st1"
        define st3 where "st3 = logger LogProxyRetry st2"
        define st4 where "st4 = callHandleNetworkFailure env email (the p) st3"
        obtain np st5 where gp: "callGetProxyForAccount env email st4 = (np, st5)"
          by (cases "callGetProxyForAccount env email st4")
        from "1.IH"(2) [OF True t0 [symmetric] Thrown st2_def rt st3_def st4_def gp [symmetric]]
        obtain c st' n2 where
          "generateChatID_loop env (attempt + 1) (Some error) tok m email np st5 = (Inr c, st')"
          "c = None \<or> truthy c" "snd st' = snd st5 @ n2" "selections n2 = []"
          "length (newChatCalls n2) \<le> MAX_RETRIES + 1 - (attempt + 1)"
          by auto
        with t0 True n1 Thrown rt gp callGetProxyForAccount_trace [OF gp] show ?thesis
          by (subst generateChatID_loop.simps) (simp add: st2_def st3_def st4_def)
      qed
    qed
  qed
qed


lemma generateChatID_returns:
  "\<exists>c st'. generateChatID env tok m email p st = (Inr c, st')
      \<and> (c = None \<or> truthy c)
      \<and> (\<exists>new. snd st' = snd st @ new \<and> selections new = []
             \<and> length (newChatCalls new) \<le> MAX_RETRIES)"
  unfolding generateChatID_def
  using generateChatID_loop_returns [of 1 None env tok m email p st]
  by (simp add: MAX_RETRIES_def)

lemma callPostCompletion_trace:
  "callPostCompletion env req st = (r, st') \<Longrightarrow> snd st' = snd st @ [PostCompletion req r]"
  by (auto simp: callPostCompletion_def split: prod.splits)

lemma sendChatRequest_try_trace:
  assumes "sendChatRequest_try env body attempt tok email proxy st = (a, st')"
  shows "\<exists>new. snd st' = snd st @ new \<and> selections new = []
           \<and> (\<forall>r. a = Returned r \<longrightarrow> r = failure \<or>
                 (\<exists>req resp pre. new = pre @ [PostCompletion req (Inr resp)] \<and> cr_token req = tok
                     \<and> http_status resp = 200 \<and> r = success tok resp))"
proof -
  obtain agent st1 where ag: "makeAgent env ''sendChatRequest'' proxy st = (agent, st1)"
    by (cases "makeAgent env ''sendChatRequest'' proxy st")
  from makeAgent_trace [OF ag] obtain n1 where n1: "snd st1 = snd st @ n1" "selections n1 = []"
    by blast
  from generateChatID_returns [of env tok "body_model body" email proxy st1]
  obtain c st2 n2 where g: "generateChatID env tok (body_model body) email proxy st1 = (Inr c, st2)"
    and n2: "snd st2 = snd st1 @ n2" "selections n2 = []"
    by blast
  show ?thesis
  proof (cases "truthy c")
    case False
    with assms ag g n1 n2 show ?thesis
      by (auto simp: sendChatRequest_try_def)
  next
    case True
    define req where "req = \<lparr>cr_token = tok, cr_chat_id = the c, cr_body = body, cr_agent = agent\<rparr>"
    obtain r st4 where pc: "callPostCompletion env req (logger (LogSending email attempt) st2) = (r, st4)"
      by (cases "callPostCompletion env req (logger (LogSending email attempt) st2)")
    have tok: "cr_token req = tok" by (simp add: req_def)
    from callPostCompletion_trace [OF pc]
    have n4: "snd st4 = snd st @ (n1 @ n2 @ [Log (LogSending email attempt)]) @ [PostCompletion req r]"
      using n1 n2 by simp
    have sel: "selections ((n1 @ n2 @ [Log (LogSending email attempt)]) @ [PostCompletion req r]) = []"
      using n1 n2 by simp
    from assms ag g True pc have a: "st' = st4 \<and>
        a = (case r of Inl error \<Rightarrow> Thrown error
             | Inr resp \<Rightarrow> if http_status resp = 200 then Returned (success tok resp)
                           else Recorded (statusError (http_status resp)))"
      by (auto simp: sendChatRequest_try_def req_def success_def split: sum.splits if_splits)
    show ?thesis
      apply (rule exI [of _ "(n1 @ n2 @ [Log (LogSending email attempt)]) @ [PostCompletion req r]"])
      using a n4 sel tok by (auto split: sum.splits if_splits)
  qed
qed


lemma callGetNextAccount_trace:
  "callGetNextAccount env st = (a, st') \<Longrightarrow> snd st' = snd st @ [GetNextAccount a]"
  by (auto simp: callGetNextAccount_def split: prod.splits)

declare sendChatRequest_loop.simps [simp del]

lemma delivered_iff:
  "delivered new r \<longleftrightarrow>
     (\<exists>accountInfo req resp pre.
         new = pre @ [PostCompletion req (Inr resp)]
       \<and> selections new \<noteq> [] \<and> last (selections new) = Some accountInfo
       \<and> http_status resp = 200
       \<and> r = success (acc_token accountInfo) resp)"
proof
  assume d: "delivered new r"
  then have ne: "new \<noteq> []" by (simp add: delivered_def)
  then have split: "new = butlast new @ [last new]" by simp
  from d obtain req resp accountInfo where
    "last new = PostCompletion req (Inr resp)" "last (selections new) = Some accountInfo"
    "selections new \<noteq> []" "http_status resp = 200" "r = success (acc_token accountInfo) resp"
    by (auto simp: delivered_def split: event.splits sum.splits option.splits)
  with split show "\<exists>accountInfo req resp pre.
         new = pre @ [PostCompletion req (Inr resp)]
       \<and> selections new \<noteq> [] \<and> last (selections new) = Some accountInfo
       \<and> http_status resp = 200
       \<and> r = success (acc_token accountInfo) resp"
    by metis
next
  assume "\<exists>accountInfo req resp pre.
         new = pre @ [PostCompletion req (Inr resp)]
       \<and> selections new \<noteq> [] \<and> last (selections new) = Some accountInfo
       \<and> http_status resp = 200
       \<and> r = success (acc_token accountInfo) resp"
  then show "delivered new r"
    by (auto simp: delivered_def)
qed

lemma delivered_prepend:
  "delivered new r \<Longrightarrow> delivered (pre @ new) r"
  unfolding delivered_iff
  apply (elim exE conjE)
  subgoal for accountInfo req resp pre'
    by (rule exI [of _ accountInfo], rule exI [of _ req], rule exI [of _ resp],
        rule exI [of _ "pre @ pre'"]) simp
  done

lemma sendChatRequest_loop_returns:
  "attempt \<le> MAX_RETRIES \<or> lastError \<noteq> None \<Longrightarrow>
   \<exists>r st' new. sendChatRequest_loop env body attempt lastError st = (Inr r, st')
      \<and> snd st' = snd st @ new \<and> (r = failure \<or> delivered new r)"
proof (induction env body attempt lastError st rule: sendChatRequest_loop.induct)
  case (1 env body attempt lastError st)
  show ?case
  proof (cases "attempt \<le> MAX_RETRIES")
    case False
    with "1.prems" obtain e where "lastError = Some e" by auto
    with False show ?thesis
      by (subst sendChatRequest_loop.simps) (simp add: sendChatRequest_end_def)
  next
    case True
    obtain sel st1 where ga: "callGetNextAccount env st = (sel, st1)"
      by (cases "callGetNextAccount env st")
    note t1 = callGetNextAccount_trace [OF ga]
    show ?thesis
    proof (cases sel)
      case None
      with True ga t1 show ?thesis
        by (subst sendChatRequest_loop.simps) simp
    next
      case (Some accountInfo)
      define tok where "tok = acc_token accountInfo"
      define email where "email = acc_email accountInfo"
      obtain proxy st2 where gp: "callGetProxyForAccount env email st1 = (proxy, st2)"
        by (cases "callGetProxyForAccount env email st1")
      note t2 = callGetProxyForAccount_trace [OF gp]
      obtain a st3 where t0: "sendChatRequest_try env body attempt tok email proxy st2 = (a, st3)"
        by (cases "sendChatRequest_try env body attempt tok email proxy st2")
      from sendChatRequest_try_trace [OF t0] obtain n3 where
        n3: "snd st3 = snd st2 @ n3" "selections n3 = []"
        and ret0: "\<forall>r. a = Returned r \<longrightarrow> r = failure \<or>
                 (\<exists>req resp pre. n3 = pre @ [PostCompletion req (Inr resp)] \<and> cr_token req = tok
                     \<and> http_status resp = 200 \<and> r = success tok resp)"
        by (elim exE conjE) (rule that)
      from ret0 have ret: "\<And>r. a = Returned r \<Longrightarrow> r = failure \<or>
                 (\<exists>req resp pre. n3 = pre @ [PostCompletion req (Inr resp)] \<and> cr_token req = tok
                     \<and> http_status resp = 200 \<and> r = success tok resp)"
        by simp
      have tr3: "snd st3 = snd st @ ([GetNextAccount (Some accountInfo), GetProxyForAccount email proxy] @ n3)"
        using t1 t2 n3 Some by simp
      show ?thesis
      proof (cases a)
        case (Returned r)
        have "r = failure \<or> delivered ([GetNextAccount (Some accountInfo), GetProxyForAccount email proxy] @ n3) r"
          using ret [OF Returned] n3
          by (auto simp: delivered_iff success_def tok_def)
        with Returned True ga Some gp t0 tr3 show ?thesis
          by (subst sendChatRequest_loop.simps) (simp add: tok_def email_def)
      next
        case (Recorded e)
        from "1.IH"(1) [OF True ga [symmetric] Some tok_def email_def refl gp [symmetric]
                          t0 [symmetric] Recorded]
        obtain r st' new where
          "sendChatRequest_loop env body (attempt + 1) (Some e) st3 = (Inr r, st')"
          "snd st' = snd st3 @ new" "r = failure \<or> delivered new r"
          by auto
        with Recorded True ga Some gp t0 tr3
          delivered_prepend [of new r "[GetNextAccount (Some accountInfo), GetProxyForAccount email proxy] @ n3"]
        show ?thesis
          by (subst sendChatRequest_loop.simps) (auto simp: tok_def email_def)
      next
        case (Thrown error)
        define st4 where "st4 = logger (LogSendFailed email proxy attempt error) st3"
        show ?thesis
        proof (cases "retryable proxy error")
          case False
          with Thrown True ga Some gp t0 tr3 show ?thesis
            by (subst sendChatRequest_loop.simps)
               (simp add: tok_def email_def sendChatRequest_end_def)
        next
          case rt: True
          define st5 where "st5 = logger LogProxyRetry st4"
          define st6 where "st6 = callHandleNetworkFailure env email (the proxy) st5"
          from "1.IH"(2) [OF True ga [symmetric] Some tok_def email_def refl gp [symmetric]
                          t0 [symmetric] Thrown st4_def rt st5_def st6_def]
          obtain r st' new where
            "sendChatRequest_loop env body (attempt + 1) (Some error) st6 = (Inr r, st')"
            "snd st' = snd st6 @ new" "r = failure \<or> delivered new r"
            by auto
          with Thrown rt True ga Some gp t0 tr3
            delivered_prepend [of new r "[GetNextAccount (Some accountInfo), GetProxyForAccount email proxy] @ n3
              @ [Log (LogSendFailed email proxy attempt error), Log LogProxyRetry, HandleNetworkFailure email (the proxy)]"]
          show ?thesis
            by (subst sendChatRequest_loop.simps)
               (auto simp: tok_def email_def st4_def st5_def st6_def)
        qed
      qed
    qed
  qed
qed



subsection \<open>One pass of the inner loop\<close>

lemma generateChatID_loop_thrown:
  assumes "attempt \<le> MAX_RETRIES"
      and "generateChatID_try env token model currentProxy st = (Thrown error, st1)"
  shows "generateChatID_loop env attempt lastError token model email currentProxy st =
           (let st2 = logger (LogGenFailed email currentProxy attempt error) st1 in
              if retryable currentProxy error then
                (let st3 = logger LogProxyRetry st2;
                     st4 = callHandleNetworkFailure env email (the currentProxy) st3;
                     (newProxy, st5) = callGetProxyForAccount env email st4
                 in generateChatID_loop env (attempt + 1) (Some error) token model email
                      newProxy st5)
              else generateChatID_end (Some error) st2)"
  using assms by (subst generateChatID_loop.simps) simp

lemma generateChatID_loop_recorded:
  assumes "attempt \<le> MAX_RETRIES"
      and "generateChatID_try env token model currentProxy st = (Recorded e, st1)"
  shows "generateChatID_loop env attempt lastError token model email currentProxy st =
           generateChatID_loop env (attempt + 1) (Some e) token model email currentProxy st1"
  using assms by (subst generateChatID_loop.simps) simp

lemma generateChatID_loop_done:
  "\<not> attempt \<le> MAX_RETRIES \<Longrightarrow>
     generateChatID_loop env attempt lastError token model email currentProxy st =
       generateChatID_end lastError st"
  by (subst generateChatID_loop.simps) simp

text \<open>
  Claim C2. When an attempt of \<open>generateChatID\<close> throws a transient network error while a
  proxy is in use, the failure is reported to the account manager with that proxy, the
  proxy now bound to the account is fetched, and the loop goes on with it as long as
  attempts remain; on the third attempt the function returns \<open>null\<close> after logging the
  message of this last error. From attempt \<open>n\<close> on, at most \<open>MAX_RETRIES + 1 - n\<close> session
  calls are made, that is at most three in all.
\<close>

theorem generateChatID_transient_retry:
  assumes "attempt \<le> MAX_RETRIES"
      and "generateChatID_try env token model currentProxy st = (Thrown error, st1)"
      and "retryable currentProxy error"
  shows "\<exists>newProxy st5 c st' new.
           callGetProxyForAccount env email
             (callHandleNetworkFailure env email (the currentProxy)
               (logger LogProxyRetry (logger (LogGenFailed email currentProxy attempt error) st1)))
             = (newProxy, st5)
         \<and> snd st5 = snd st1 @ [Log (LogGenFailed email currentProxy attempt error), Log LogProxyRetry,
                                  HandleNetworkFailure email (the currentProxy),
                                  GetProxyForAccount email newProxy]
         \<and> generateChatID_loop env attempt lastError token model email currentProxy st =
             (if attempt < MAX_RETRIES
              then generateChatID_loop env (attempt + 1) (Some error) token model email newProxy st5
              else (Inr None, logger (LogGenFinal (err_message error)) st5))
         \<and> generateChatID_loop env attempt lastError token model email currentProxy st = (Inr c, st')
         \<and> snd st' = snd st @ new
         \<and> length (newChatCalls new) \<le> MAX_RETRIES + 1 - attempt"
proof -
  define st4 where "st4 = callHandleNetworkFailure env email (the currentProxy)
               (logger LogProxyRetry (logger (LogGenFailed email currentProxy attempt error) st1))"
  obtain newProxy st5 where gp: "callGetProxyForAccount env email st4 = (newProxy, st5)"
    by (cases "callGetProxyForAccount env email st4")
  have tr: "snd st5 = snd st1 @ [Log (LogGenFailed email currentProxy attempt error), Log LogProxyRetry,
                                  HandleNetworkFailure email (the currentProxy),
                                  GetProxyForAccount email newProxy]"
    using callGetProxyForAccount_trace [OF gp] by (simp add: st4_def)
  have step: "generateChatID_loop env attempt lastError token model email currentProxy st =
                generateChatID_loop env (attempt + 1) (Some error) token model email newProxy st5"
    using generateChatID_loop_thrown [OF assms(1,2)] assms(3) gp by (simp add: st4_def)
  have last: "\<not> attempt < MAX_RETRIES \<Longrightarrow>
                generateChatID_loop env (attempt + 1) (Some error) token model email newProxy st5 =
                  (Inr None, logger (LogGenFinal (err_message error)) st5)"
    using assms(1) by (simp add: generateChatID_loop_done generateChatID_end_def)
  from generateChatID_loop_returns [of attempt lastError env token model email currentProxy st] assms(1)
  obtain c st' new where res:
    "generateChatID_loop env attempt lastError token model email currentProxy st = (Inr c, st')"
    "snd st' = snd st @ new" "length (newChatCalls new) \<le> MAX_RETRIES + 1 - attempt"
    by auto
  have eq: "generateChatID_loop env attempt lastError token model email currentProxy st =
             (if attempt < MAX_RETRIES
              then generateChatID_loop env (attempt + 1) (Some error) token model email newProxy st5
              else (Inr None, logger (LogGenFinal (err_message error)) st5))"
    using step last by simp
  show ?thesis
    unfolding st4_def [symmetric]
    apply (rule exI [of _ newProxy], rule exI [of _ st5], rule exI [of _ c], rule exI [of _ st'],
           rule exI [of _ new])
    using gp tr eq res by simp
qed

theorem generateChatID_transient_retry_witness:
  "(1::nat) \<le> MAX_RETRIES
   \<and> generateChatID_try scripted ''tok-a'' ''qwen'' (Some p1) (flaky, []) =
       (Thrown econnreset, snd (generateChatID_try scripted ''tok-a'' ''qwen'' (Some p1) (flaky, [])))
   \<and> retryable (Some p1) econnreset
   \<and> fst (generateChatID scripted ''tok-a'' ''qwen'' ''a@x'' (Some p1) (flaky, [])) = Inr None
   \<and> reports (snd (snd (generateChatID scripted ''tok-a'' ''qwen'' ''a@x'' (Some p1) (flaky, []))))
       = [(''a@x'', p1), (''a@x'', p2), (''a@x'', p3)]
   \<and> length (newChatCalls
        (snd (snd (generateChatID scripted ''tok-a'' ''qwen'' ''a@x'' (Some p1) (flaky, []))))) = 3
   \<and> (\<exists>newProxy st5 c st' new.
         callGetProxyForAccount scripted ''a@x''
             (callHandleNetworkFailure scripted ''a@x'' (the (Some p1))
               (logger LogProxyRetry (logger (LogGenFailed ''a@x'' (Some p1) 1 econnreset)
                  (snd (generateChatID_try scripted ''tok-a'' ''qwen'' (Some p1) (flaky, []))))))
             = (newProxy, st5)
         \<and> snd st5 = snd (snd (generateChatID_try scripted ''tok-a'' ''qwen'' (Some p1) (flaky, [])))
               @ [Log (LogGenFailed ''a@x'' (Some p1) 1 econnreset), Log LogProxyRetry,
                  HandleNetworkFailure ''a@x'' (the (Some p1)), GetProxyForAccount ''a@x'' newProxy]
         \<and> generateChatID_loop scripted 1 None ''tok-a'' ''qwen'' ''a@x'' (Some p1) (flaky, []) =
             (if 1 < MAX_RETRIES
              then generateChatID_loop scripted (1 + 1) (Some econnreset) ''tok-a'' ''qwen'' ''a@x''
                     newProxy st5
              else (Inr None, logger (LogGenFinal (err_message econnreset)) st5))
         \<and> generateChatID_loop scripted 1 None ''tok-a'' ''qwen'' ''a@x'' (Some p1) (flaky, [])
             = (Inr c, st')
         \<and> snd st' = snd (flaky, []) @ new
         \<and> length (newChatCalls new) \<le> MAX_RETRIES + 1 - 1)"
proof -
  have h1: "(1::nat) \<le> MAX_RETRIES" by (simp add: MAX_RETRIES_def)
  have "fst (generateChatID_try scripted ''tok-a'' ''qwen'' (Some p1) (flaky, [])) = Thrown econnreset"
    by code_simp
  then have h2: "generateChatID_try scripted ''tok-a'' ''qwen'' (Some p1) (flaky, []) =
       (Thrown econnreset, snd (generateChatID_try scripted ''tok-a'' ''qwen'' (Some p1) (flaky, [])))"
    by (rule pair_of_fst)
  have h3: "retryable (Some p1) econnreset" by code_simp
  have r1: "fst (generateChatID scripted ''tok-a'' ''qwen'' ''a@x'' (Some p1) (flaky, [])) = Inr None"
    by code_simp
  have r2: "reports (snd (snd (generateChatID scripted ''tok-a'' ''qwen'' ''a@x'' (Some p1) (flaky, []))))
       = [(''a@x'', p1), (''a@x'', p2), (''a@x'', p3)]"
    by code_simp
  have r3: "length (newChatCalls
        (snd (snd (generateChatID scripted ''tok-a'' ''qwen'' ''a@x'' (Some p1) (flaky, []))))) = 3"
    by code_simp
  from generateChatID_transient_retry [OF h1 h2 h3, where email = "''a@x''" and lastError = None]
  show ?thesis using h1 h2 h3 r1 r2 r3 by blast
qed

lemma generateChatID_try_Recorded:
  assumes "generateChatID_try env token model currentProxy st = (Recorded e, st1)"
  shows "e = invalidResponseError
       \<and> (\<exists>req cid pre. snd st1 = pre @ [PostNewChat req (Inr cid)] \<and> \<not> truthy cid)"
proof -
  obtain agent st0 where ag: "makeAgent env ''generateChatID'' currentProxy st = (agent, st0)"
    by (cases "makeAgent env ''generateChatID'' currentProxy st")
  define req where "req = \<lparr>nc_token = token, nc_model = model, nc_agent = agent\<rparr>"
  obtain r st2 where pc: "callPostNewChat env req st0 = (r, st2)"
    by (cases "callPostNewChat env req st0")
  note tr = callPostNewChat_trace [OF pc]
  from assms ag pc have "st1 = st2 \<and> e = invalidResponseError \<and> (\<exists>cid. r = Inr cid \<and> \<not> truthy cid)"
    by (auto simp: generateChatID_try_def req_def split: sum.splits if_splits)
  with tr show ?thesis by auto
qed

text \<open>
  Claim C3, as amended. An error thrown by the session call that is not a transient network
  error with a proxy in use ends \<open>generateChatID\<close> at once: two log lines, then \<open>null\<close>.
  An answer without identifier does not: it is recorded as \<open>lastError\<close> and the loop goes on
  to the next attempt with the same token and proxy, without a report to the account
  manager; only on the third attempt does it end in \<open>null\<close>.
\<close>

theorem generateChatID_other_failures:
  assumes "attempt \<le> MAX_RETRIES"
  shows "(generateChatID_try env token model currentProxy st = (Thrown error, st1)
            \<and> \<not> retryable currentProxy error \<longrightarrow>
          generateChatID_loop env attempt lastError token model email currentProxy st =
            (Inr None, logger (LogGenFinal (err_message error))
                         (logger (LogGenFailed email currentProxy attempt error) st1)))
       \<and> (generateChatID_try env token model currentProxy st = (Recorded e, st1) \<longrightarrow>
          e = invalidResponseError
          \<and> (\<exists>req cid pre. snd st1 = pre @ [PostNewChat req (Inr cid)] \<and> \<not> truthy cid)
          \<and> generateChatID_loop env attempt lastError token model email currentProxy st =
             (if attempt < MAX_RETRIES
              then generateChatID_loop env (attempt + 1) (Some e) token model email currentProxy st1
              else (Inr None, logger (LogGenFinal (err_message e)) st1)))"
proof (intro conjI impI)
  assume "generateChatID_try env token model currentProxy st = (Thrown error, st1)
            \<and> \<not> retryable currentProxy error"
  then show "generateChatID_loop env attempt lastError token model email currentProxy st =
            (Inr None, logger (LogGenFinal (err_message error))
                         (logger (LogGenFailed email currentProxy attempt error) st1))"
    using generateChatID_loop_thrown [OF assms, of env token model currentProxy st error st1]
    by (simp add: generateChatID_end_def)
next
  assume r: "generateChatID_try env token model currentProxy st = (Recorded e, st1)"
  from generateChatID_try_Recorded [OF r]
  show "e = invalidResponseError"
    and "\<exists>req cid pre. snd st1 = pre @ [PostNewChat req (Inr cid)] \<and> \<not> truthy cid"
    by blast+
  show "generateChatID_loop env attempt lastError token model email currentProxy st =
             (if attempt < MAX_RETRIES
              then generateChatID_loop env (attempt + 1) (Some e) token model email currentProxy st1
              else (Inr None, logger (LogGenFinal (err_message e)) st1))"
    using generateChatID_loop_recorded [OF assms r] assms
    by (simp add: generateChatID_loop_done generateChatID_end_def)
qed

theorem generateChatID_other_failures_witness:
  "(1::nat) \<le> MAX_RETRIES
   \<and> fst (generateChatID_try scripted ''tok-a'' ''qwen'' (Some p1) (rejecting, [])) = Thrown badRequest
   \<and> \<not> retryable (Some p1) badRequest
   \<and> generateChatID_loop scripted 1 None ''tok-a'' ''qwen'' ''a@x'' (Some p1) (rejecting, []) =
       (Inr None, logger (LogGenFinal (err_message badRequest))
          (logger (LogGenFailed ''a@x'' (Some p1) 1 badRequest)
             (snd (generateChatID_try scripted ''tok-a'' ''qwen'' (Some p1) (rejecting, [])))))
   \<and> fst (generateChatID_try scripted ''tok-a'' ''qwen'' None (malformedOnce, []))
       = Recorded invalidResponseError
   \<and> generateChatID_loop scripted 1 None ''tok-a'' ''qwen'' ''a@x'' None (malformedOnce, []) =
       generateChatID_loop scripted 2 (Some invalidResponseError) ''tok-a'' ''qwen'' ''a@x'' None
         (snd (generateChatID_try scripted ''tok-a'' ''qwen'' None (malformedOnce, [])))"
proof -
  have h1: "(1::nat) \<le> MAX_RETRIES" by (simp add: MAX_RETRIES_def)
  have a1: "fst (generateChatID_try scripted ''tok-a'' ''qwen'' (Some p1) (rejecting, [])) = Thrown badRequest"
    by code_simp
  then have a1': "generateChatID_try scripted ''tok-a'' ''qwen'' (Some p1) (rejecting, []) =
      (Thrown badRequest, snd (generateChatID_try scripted ''tok-a'' ''qwen'' (Some p1) (rejecting, [])))"
    by (rule pair_of_fst)
  have a2: "\<not> retryable (Some p1) badRequest" by code_simp
  have b1: "fst (generateChatID_try scripted ''tok-a'' ''qwen'' None (malformedOnce, []))
       = Recorded invalidResponseError"
    by code_simp
  then have b1': "generateChatID_try scripted ''tok-a'' ''qwen'' None (malformedOnce, []) =
      (Recorded invalidResponseError,
       snd (generateChatID_try scripted ''tok-a'' ''qwen'' None (malformedOnce, [])))"
    by (rule pair_of_fst)
  have lt: "(1::nat) < MAX_RETRIES" by (simp add: MAX_RETRIES_def)
  from generateChatID_other_failures [OF h1, where env = scripted and token = "''tok-a''"
      and model = "''qwen''" and currentProxy = "Some p1" and st = "(rejecting, [])"
      and error = badRequest and lastError = None and email = "''a@x''"
      and ?st1.0 = "snd (generateChatID_try scripted ''tok-a'' ''qwen'' (Some p1) (rejecting, []))"]
    a1' a2
  have A: "generateChatID_loop scripted 1 None ''tok-a'' ''qwen'' ''a@x'' (Some p1) (rejecting, []) =
       (Inr None, logger (LogGenFinal (err_message badRequest))
          (logger (LogGenFailed ''a@x'' (Some p1) 1 badRequest)
             (snd (generateChatID_try scripted ''tok-a'' ''qwen'' (Some p1) (rejecting, [])))))"
    by blast
  from generateChatID_other_failures [OF h1, where env = scripted and token = "''tok-a''"
      and model = "''qwen''" and currentProxy = None and st = "(malformedOnce, [])"
      and e = invalidResponseError and lastError = None and email = "''a@x''"
      and ?st1.0 = "snd (generateChatID_try scripted ''tok-a'' ''qwen'' None (malformedOnce, []))"]
    b1' lt
  have B: "generateChatID_loop scripted 1 None ''tok-a'' ''qwen'' ''a@x'' None (malformedOnce, []) =
       generateChatID_loop scripted 2 (Some invalidResponseError) ''tok-a'' ''qwen'' ''a@x'' None
         (snd (generateChatID_try scripted ''tok-a'' ''qwen'' None (malformedOnce, [])))"
    by (simp add: numeral_2_eq_2)
  from h1 a1 a2 A b1 B show ?thesis by blast
qed

text \<open>On the scripted world \<open>malformedOnce\<close> the first answer has no identifier; a second
  session call is made all the same and its identifier is returned.\<close>

theorem generateChatID_malformed_retried:
  "fst (generateChatID_try scripted ''tok-a'' ''qwen'' None (malformedOnce, []))
     = Recorded invalidResponseError
   \<and> fst (generateChatID scripted ''tok-a'' ''qwen'' ''a@x'' None (malformedOnce, []))
     = Inr (Some ''chat-2'')
   \<and> length (newChatCalls (snd (snd
        (generateChatID scripted ''tok-a'' ''qwen'' ''a@x'' None (malformedOnce, []))))) = 2"
  by code_simp

subsection \<open>One pass of the outer loop\<close>

lemma sendChatRequest_loop_step:
  assumes "attempt \<le> MAX_RETRIES"
      and "callGetNextAccount env st = (Some accountInfo, st1)"
      and "callGetProxyForAccount env (acc_email accountInfo) st1 = (proxy, st2)"
      and "sendChatRequest_try env body attempt (acc_token accountInfo) (acc_email accountInfo)
             proxy st2 = (a, st3)"
  shows "sendChatRequest_loop env body attempt lastError st =
           (case a of
              Returned r \<Rightarrow> (Inr r, st3)
            | Recorded e \<Rightarrow> sendChatRequest_loop env body (attempt + 1) (Some e) st3
            | Thrown error \<Rightarrow>
                (let st4 = logger (LogSendFailed (acc_email accountInfo) proxy attempt error) st3 in
                 if retryable proxy error then
                   (let st5 = logger LogProxyRetry st4;
                        st6 = callHandleNetworkFailure env (acc_email accountInfo) (the proxy) st5
                    in sendChatRequest_loop env body (attempt + 1) (Some error) st6)
                 else sendChatRequest_end (Some error) st4))"
  using assms by (subst sendChatRequest_loop.simps) (simp add: Let_def split: attempt.splits)

lemma sendChatRequest_loop_done:
  "\<not> attempt \<le> MAX_RETRIES \<Longrightarrow>
     sendChatRequest_loop env body attempt lastError st = sendChatRequest_end lastError st"
  by (subst sendChatRequest_loop.simps) simp

lemma sendChatRequest_loop_none:
  assumes "attempt \<le> MAX_RETRIES" and "getNextAccount env (fst st) = (None, w')"
  shows "sendChatRequest_loop env body attempt lastError st =
           (Inr failure, (w', snd st @ [GetNextAccount None, Log LogNoAccount]))"
  using assms
  by (subst sendChatRequest_loop.simps) (simp add: callGetNextAccount_def logger_def emit_def)

text \<open>Every pass of the outer loop starts by selecting an account.\<close>

lemma sendChatRequest_loop_selects:
  assumes "attempt \<le> MAX_RETRIES"
  shows "\<exists>sel rest. snd (snd (sendChatRequest_loop env body attempt lastError st)) =
           snd st @ GetNextAccount sel # rest"
proof -
  obtain sel st1 where ga: "callGetNextAccount env st = (sel, st1)"
    by (cases "callGetNextAccount env st")
  note t1 = callGetNextAccount_trace [OF ga]
  show ?thesis
  proof (cases sel)
    case None
    with assms ga t1 show ?thesis
      by (subst sendChatRequest_loop.simps) simp
  next
    case (Some accountInfo)
    obtain proxy st2 where gp: "callGetProxyForAccount env (acc_email accountInfo) st1 = (proxy, st2)"
      by (cases "callGetProxyForAccount env (acc_email accountInfo) st1")
    note t2 = callGetProxyForAccount_trace [OF gp]
    obtain a st3 where t0: "sendChatRequest_try env body attempt (acc_token accountInfo)
         (acc_email accountInfo) proxy st2 = (a, st3)"
      by (cases "sendChatRequest_try env body attempt (acc_token accountInfo)
         (acc_email accountInfo) proxy st2")
    from sendChatRequest_try_trace [OF t0] obtain n3 where n3: "snd st3 = snd st2 @ n3"
      by (elim exE conjE) (rule that)
    note step = sendChatRequest_loop_step [OF assms ga [unfolded Some] gp t0, of lastError]
    show ?thesis
    proof (cases a)
      case (Returned r)
      with step t1 t2 n3 Some show ?thesis by simp
    next
      case (Recorded e)
      from sendChatRequest_loop_returns [of "attempt + 1" "Some e" env body st3]
      obtain r st' new where
        "sendChatRequest_loop env body (attempt + 1) (Some e) st3 = (Inr r, st')"
        "snd st' = snd st3 @ new"
        by auto
      with Recorded step t1 t2 n3 Some show ?thesis by simp
    next
      case (Thrown error)
      define st6 where "st6 = callHandleNetworkFailure env (acc_email accountInfo) (the proxy)
          (logger LogProxyRetry (logger (LogSendFailed (acc_email accountInfo) proxy attempt error) st3))"
      from sendChatRequest_loop_returns [of "attempt + 1" "Some error" env body st6]
      obtain r st' new where
        "sendChatRequest_loop env body (attempt + 1) (Some error) st6 = (Inr r, st')"
        "snd st' = snd st6 @ new"
        by auto
      with Thrown step t1 t2 n3 Some show ?thesis
        by (cases "retryable proxy error") (simp_all add: st6_def sendChatRequest_end_def Let_def)
    qed
  qed
qed

lemma sendChatRequest_try_Recorded:
  assumes "sendChatRequest_try env body attempt token email proxy st = (Recorded e, st')"
  shows "\<exists>req resp pre. snd st' = pre @ [PostCompletion req (Inr resp)]
           \<and> http_status resp \<noteq> 200 \<and> e = statusError (http_status resp)"
proof -
  obtain agent st1 where ag: "makeAgent env ''sendChatRequest'' proxy st = (agent, st1)"
    by (cases "makeAgent env ''sendChatRequest'' proxy st")
  from generateChatID_returns [of env token "body_model body" email proxy st1]
  obtain c st2 where g: "generateChatID env token (body_model body) email proxy st1 = (Inr c, st2)"
    by blast
  define req where
    "req = \<lparr>cr_token = token, cr_chat_id = the c, cr_body = body, cr_agent = agent\<rparr>"
  obtain r st4 where pc: "callPostCompletion env req (logger (LogSending email attempt) st2) = (r, st4)"
    by (cases "callPostCompletion env req (logger (LogSending email attempt) st2)")
  note tr = callPostCompletion_trace [OF pc]
  from assms ag g pc have "st' = st4 \<and>
      (\<exists>resp. r = Inr resp \<and> http_status resp \<noteq> 200 \<and> e = statusError (http_status resp))"
    by (auto simp: sendChatRequest_try_def req_def split: sum.splits if_splits)
  with tr show ?thesis by auto
qed

text \<open>
  Claim C4, as amended. After an account and its proxy have been selected: an error thrown
  in the \<open>try\<close> block that is a transient network error with a proxy in use is reported to
  the account manager and the outer loop continues, its next pass starting with a new
  account selection; any other thrown error ends the dispatch at once with the failure
  object. A completion answered with a status other than 200 is recorded as \<open>lastError\<close>
  and the loop goes on to the next pass without a report. In each case the third pass ends
  with the failure object, after the message of the last error is logged.
\<close>

theorem sendChatRequest_failure_handling:
  assumes "attempt \<le> MAX_RETRIES"
      and "callGetNextAccount env st = (Some accountInfo, st1)"
      and "callGetProxyForAccount env (acc_email accountInfo) st1 = (proxy, st2)"
      and "sendChatRequest_try env body attempt (acc_token accountInfo) (acc_email accountInfo)
             proxy st2 = (a, st3)"
      and "st4 = logger (LogSendFailed (acc_email accountInfo) proxy attempt error) st3"
      and "st6 = callHandleNetworkFailure env (acc_email accountInfo) (the proxy)
                   (logger LogProxyRetry st4)"
  shows "(a = Thrown error \<and> retryable proxy error \<longrightarrow>
            sendChatRequest_loop env body attempt lastError st =
              (if attempt < MAX_RETRIES
               then sendChatRequest_loop env body (attempt + 1) (Some error) st6
               else (Inr failure, logger (LogSendFinal (err_message error)) st6))
          \<and> snd st6 = snd st3 @ [Log (LogSendFailed (acc_email accountInfo) proxy attempt error),
                 Log LogProxyRetry, HandleNetworkFailure (acc_email accountInfo) (the proxy)]
          \<and> (attempt < MAX_RETRIES \<longrightarrow>
               (\<exists>sel rest. snd (snd (sendChatRequest_loop env body (attempt + 1) (Some error) st6)) =
                   snd st6 @ GetNextAccount sel # rest)))
       \<and> (a = Thrown error \<and> \<not> retryable proxy error \<longrightarrow>
            sendChatRequest_loop env body attempt lastError st =
              (Inr failure, logger (LogSendFinal (err_message error)) st4))
       \<and> (a = Recorded e \<longrightarrow>
            (\<exists>req resp pre. snd st3 = pre @ [PostCompletion req (Inr resp)]
               \<and> http_status resp \<noteq> 200 \<and> e = statusError (http_status resp))
          \<and> sendChatRequest_loop env body attempt lastError st =
              (if attempt < MAX_RETRIES
               then sendChatRequest_loop env body (attempt + 1) (Some e) st3
               else (Inr failure, logger (LogSendFinal (err_message e)) st3)))"
proof -
  note step = sendChatRequest_loop_step [OF assms(1-4), of lastError]
  have sel: "attempt < MAX_RETRIES \<Longrightarrow>
               (\<exists>sel rest. snd (snd (sendChatRequest_loop env body (attempt + 1) (Some error) st6)) =
                   snd st6 @ GetNextAccount sel # rest)"
    using sendChatRequest_loop_selects [of "attempt + 1" env body "Some error" st6] by simp
  have fin: "\<And>e s. \<not> attempt < MAX_RETRIES \<Longrightarrow>
               sendChatRequest_loop env body (attempt + 1) (Some e) s =
                 (Inr failure, logger (LogSendFinal (err_message e)) s)"
    using assms(1) by (simp add: sendChatRequest_loop_done sendChatRequest_end_def)
  have rec: "a = Recorded e \<Longrightarrow>
               (\<exists>req resp pre. snd st3 = pre @ [PostCompletion req (Inr resp)]
                  \<and> http_status resp \<noteq> 200 \<and> e = statusError (http_status resp))"
    using sendChatRequest_try_Recorded [of env body attempt _ _ proxy st2 e st3] assms(4) by simp
  show ?thesis
    using step sel fin rec assms(5,6)
    by (auto simp: sendChatRequest_end_def Let_def)
qed

theorem sendChatRequest_failure_handling_witness:
  "(let st1 = snd (callGetNextAccount scripted (rotating, []));
        st2 = snd (callGetProxyForAccount scripted (acc_email alice) st1);
        st3 = snd (sendChatRequest_try scripted hello 1 (acc_token alice) (acc_email alice) (Some p1) st2);
        st6 = callHandleNetworkFailure scripted (acc_email alice) (the (Some p1))
                (logger LogProxyRetry (logger (LogSendFailed (acc_email alice) (Some p1) 1 econnreset) st3))
    in (1::nat) \<le> MAX_RETRIES
     \<and> callGetNextAccount scripted (rotating, []) = (Some alice, st1)
     \<and> callGetProxyForAccount scripted (acc_email alice) st1 = (Some p1, st2)
     \<and> sendChatRequest_try scripted hello 1 (acc_token alice) (acc_email alice) (Some p1) st2
          = (Thrown econnreset, st3)
     \<and> retryable (Some p1) econnreset
     \<and> sendChatRequest_loop scripted hello 1 None (rotating, []) =
          sendChatRequest_loop scripted hello (1 + 1) (Some econnreset) st6
     \<and> reports (snd st6) = [(''a@x'', p1), (''a@x'', p1)])
 \<and> (let st1 = snd (callGetNextAccount scripted (refusing, []));
        st2 = snd (callGetProxyForAccount scripted (acc_email alice) st1);
        st3 = snd (sendChatRequest_try scripted hello 1 (acc_token alice) (acc_email alice) (Some p1) st2)
    in callGetNextAccount scripted (refusing, []) = (Some alice, st1)
     \<and> callGetProxyForAccount scripted (acc_email alice) st1 = (Some p1, st2)
     \<and> sendChatRequest_try scripted hello 1 (acc_token alice) (acc_email alice) (Some p1) st2
          = (Thrown badRequest, st3)
     \<and> \<not> retryable (Some p1) badRequest
     \<and> sendChatRequest_loop scripted hello 1 None (refusing, []) =
          (Inr failure, logger (LogSendFinal (err_message badRequest))
                          (logger (LogSendFailed (acc_email alice) (Some p1) 1 badRequest) st3)))
 \<and> (let st1 = snd (callGetNextAccount scripted (noContentOnce, []));
        st2 = snd (callGetProxyForAccount scripted (acc_email alice) st1);
        st3 = snd (sendChatRequest_try scripted hello 1 (acc_token alice) (acc_email alice) (Some p1) st2)
    in callGetNextAccount scripted (noContentOnce, []) = (Some alice, st1)
     \<and> callGetProxyForAccount scripted (acc_email alice) st1 = (Some p1, st2)
     \<and> sendChatRequest_try scripted hello 1 (acc_token alice) (acc_email alice) (Some p1) st2
          = (Recorded (statusError 204), st3)
     \<and> sendChatRequest_loop scripted hello 1 None (noContentOnce, []) =
          sendChatRequest_loop scripted hello (1 + 1) (Some (statusError 204)) st3)"
proof -
  have le: "(1::nat) \<le> MAX_RETRIES" and lt: "(1::nat) < MAX_RETRIES"
    by (simp_all add: MAX_RETRIES_def)
  \<comment> \<open>a connection reset on the completion call, proxy in use\<close>
  define a1 where "a1 = snd (callGetNextAccount scripted (rotating, []))"
  define a2 where "a2 = snd (callGetProxyForAccount scripted (acc_email alice) a1)"
  define a3 where "a3 = snd (sendChatRequest_try scripted hello 1 (acc_token alice) (acc_email alice) (Some p1) a2)"
  define a6 where "a6 = callHandleNetworkFailure scripted (acc_email alice) (the (Some p1))
                (logger LogProxyRetry (logger (LogSendFailed (acc_email alice) (Some p1) 1 econnreset) a3))"
  have "fst (callGetNextAccount scripted (rotating, [])) = Some alice" by code_simp
  then have A1: "callGetNextAccount scripted (rotating, []) = (Some alice, a1)"
    unfolding a1_def by (rule pair_of_fst)
  have "fst (callGetProxyForAccount scripted (acc_email alice) a1) = Some p1"
    unfolding a1_def by code_simp
  then have A2: "callGetProxyForAccount scripted (acc_email alice) a1 = (Some p1, a2)"
    unfolding a2_def by (rule pair_of_fst)
  have "fst (sendChatRequest_try scripted hello 1 (acc_token alice) (acc_email alice) (Some p1) a2)
          = Thrown econnreset"
    unfolding a2_def a1_def by code_simp
  then have A3: "sendChatRequest_try scripted hello 1 (acc_token alice) (acc_email alice) (Some p1) a2
          = (Thrown econnreset, a3)"
    unfolding a3_def by (rule pair_of_fst)
  have A4: "retryable (Some p1) econnreset" by code_simp
  have A5: "reports (snd a6) = [(''a@x'', p1), (''a@x'', p1)]"
    unfolding a6_def a3_def a2_def a1_def by code_simp
  from sendChatRequest_failure_handling [OF le A1 A2 A3 refl a6_def, where lastError = None] A4 lt
  have A: "sendChatRequest_loop scripted hello 1 None (rotating, []) =
          sendChatRequest_loop scripted hello (1 + 1) (Some econnreset) a6"
    by simp
  \<comment> \<open>HTTP 400 on the completion call\<close>
  define b1 where "b1 = snd (callGetNextAccount scripted (refusing, []))"
  define b2 where "b2 = snd (callGetProxyForAccount scripted (acc_email alice) b1)"
  define b3 where "b3 = snd (sendChatRequest_try scripted hello 1 (acc_token alice) (acc_email alice) (Some p1) b2)"
  have "fst (callGetNextAccount scripted (refusing, [])) = Some alice" by code_simp
  then have B1: "callGetNextAccount scripted (refusing, []) = (Some alice, b1)"
    unfolding b1_def by (rule pair_of_fst)
  have "fst (callGetProxyForAccount scripted (acc_email alice) b1) = Some p1"
    unfolding b1_def by code_simp
  then have B2: "callGetProxyForAccount scripted (acc_email alice) b1 = (Some p1, b2)"
    unfolding b2_def by (rule pair_of_fst)
  have "fst (sendChatRequest_try scripted hello 1 (acc_token alice) (acc_email alice) (Some p1) b2)
          = Thrown badRequest"
    unfolding b2_def b1_def by code_simp
  then have B3: "sendChatRequest_try scripted hello 1 (acc_token alice) (acc_email alice) (Some p1) b2
          = (Thrown badRequest, b3)"
    unfolding b3_def by (rule pair_of_fst)
  have B4: "\<not> retryable (Some p1) badRequest" by code_simp
  from sendChatRequest_failure_handling [OF le B1 B2 B3 refl refl, where error = badRequest
         and lastError = None] B4
  have B: "sendChatRequest_loop scripted hello 1 None (refusing, []) =
          (Inr failure, logger (LogSendFinal (err_message badRequest))
                          (logger (LogSendFailed (acc_email alice) (Some p1) 1 badRequest) b3))"
    by simp
  \<comment> \<open>HTTP 204 on the completion call\<close>
  define c1 where "c1 = snd (callGetNextAccount scripted (noContentOnce, []))"
  define c2 where "c2 = snd (callGetProxyForAccount scripted (acc_email alice) c1)"
  define c3 where "c3 = snd (sendChatRequest_try scripted hello 1 (acc_token alice) (acc_email alice) (Some p1) c2)"
  have "fst (callGetNextAccount scripted (noContentOnce, [])) = Some alice" by code_simp
  then have C1: "callGetNextAccount scripted (noContentOnce, []) = (Some alice, c1)"
    unfolding c1_def by (rule pair_of_fst)
  have "fst (callGetProxyForAccount scripted (acc_email alice) c1) = Some p1"
    unfolding c1_def by code_simp
  then have C2: "callGetProxyForAccount scripted (acc_email alice) c1 = (Some p1, c2)"
    unfolding c2_def by (rule pair_of_fst)
  have "fst (sendChatRequest_try scripted hello 1 (acc_token alice) (acc_email alice) (Some p1) c2)
          = Recorded (statusError 204)"
    unfolding c2_def c1_def by code_simp
  then have C3: "sendChatRequest_try scripted hello 1 (acc_token alice) (acc_email alice) (Some p1) c2
          = (Recorded (statusError 204), c3)"
    unfolding c3_def by (rule pair_of_fst)
  from sendChatRequest_failure_handling [OF le C1 C2 C3 refl refl, where e = "statusError 204"
         and lastError = None] lt
  have C: "sendChatRequest_loop scripted hello 1 None (noContentOnce, []) =
          sendChatRequest_loop scripted hello (1 + 1) (Some (statusError 204)) c3"
    by simp
  show ?thesis
    unfolding Let_def
    using le A1 A2 A3 A4 A A5 B1 B2 B3 B4 B C1 C2 C3 C
    unfolding a1_def a2_def a3_def a6_def b1_def b2_def b3_def c1_def c2_def c3_def
    by (intro conjI)
qed

text \<open>On the scripted world \<open>noContentOnce\<close> the first completion is answered with HTTP 204,
  which is no network error; a second pass selects the next account and succeeds, and
  nothing is reported to the account manager.\<close>

theorem sendChatRequest_status_retried:
  "fst (sendChatRequest scripted hello (noContentOnce, [])) = Inr (success ''tok-b'' ok200)
   \<and> completionAnswers (snd (snd (sendChatRequest scripted hello (noContentOnce, []))))
       = [Inr empty204, Inr ok200]
   \<and> selections (snd (snd (sendChatRequest scripted hello (noContentOnce, []))))
       = [Some alice, Some bob]
   \<and> reports (snd (snd (sendChatRequest scripted hello (noContentOnce, [])))) = []"
  by code_simp

text \<open>
  Claim C5. When \<open>generateChatID\<close> returns no identifier, the pass returns the failure
  object at once: one log line follows, and the events of the pass hold exactly one
  account selection.
\<close>

theorem sendChatRequest_aborts_without_chat_id:
  assumes "attempt \<le> MAX_RETRIES"
      and "callGetNextAccount env st = (Some accountInfo, st1)"
      and "callGetProxyForAccount env (acc_email accountInfo) st1 = (proxy, st2)"
      and "makeAgent env ''sendChatRequest'' proxy st2 = (agent, st2a)"
      and "generateChatID env (acc_token accountInfo) (body_model body) (acc_email accountInfo)
             proxy st2a = (Inr c, st3)"
      and "\<not> truthy c"
  shows "sendChatRequest_loop env body attempt lastError st = (Inr failure, logger LogNoChatId st3)
       \<and> (\<exists>new. snd (logger LogNoChatId st3) = snd st @ new \<and> selections new = [Some accountInfo])
       \<and> (attempt = 1 \<and> lastError = None \<longrightarrow>
            sendChatRequest env body st = (Inr failure, logger LogNoChatId st3))"
proof -
  have t0: "sendChatRequest_try env body attempt (acc_token accountInfo) (acc_email accountInfo)
             proxy st2 = (Returned failure, logger LogNoChatId st3)"
    using assms(4-6) by (simp add: sendChatRequest_try_def)
  have res: "sendChatRequest_loop env body attempt lastError st = (Inr failure, logger LogNoChatId st3)"
    using sendChatRequest_loop_step [OF assms(1-3) t0, of lastError] by simp
  from makeAgent_trace [OF assms(4)] obtain n1 where
    n1: "snd st2a = snd st2 @ n1" "selections n1 = []" by blast
  from generateChatID_returns [of env "acc_token accountInfo" "body_model body"
         "acc_email accountInfo" proxy st2a] assms(5)
  obtain n2 where n2: "snd st3 = snd st2a @ n2" "selections n2 = []" by auto
  have "snd (logger LogNoChatId st3) =
          snd st @ ([GetNextAccount (Some accountInfo), GetProxyForAccount (acc_email accountInfo) proxy]
                    @ n1 @ n2 @ [Log LogNoChatId])"
    using callGetNextAccount_trace [OF assms(2)] callGetProxyForAccount_trace [OF assms(3)] n1 n2
    by simp
  moreover have "selections ([GetNextAccount (Some accountInfo), GetProxyForAccount (acc_email accountInfo) proxy]
                    @ n1 @ n2 @ [Log LogNoChatId]) = [Some accountInfo]"
    using n1 n2 by simp
  ultimately have "\<exists>new. snd (logger LogNoChatId st3) = snd st @ new \<and> selections new = [Some accountInfo]"
    by blast
  with res show ?thesis by (auto simp: sendChatRequest_def)
qed

theorem sendChatRequest_aborts_without_chat_id_witness:
  "(let st1 = snd (callGetNextAccount scripted (rejecting, []));
        st2 = snd (callGetProxyForAccount scripted (acc_email alice) st1);
        st3 = snd (generateChatID scripted (acc_token alice) (body_model hello) (acc_email alice)
                     (Some p1) st2)
    in (1::nat) \<le> MAX_RETRIES
     \<and> callGetNextAccount scripted (rejecting, []) = (Some alice, st1)
     \<and> callGetProxyForAccount scripted (acc_email alice) st1 = (Some p1, st2)
     \<and> makeAgent scripted ''sendChatRequest'' (Some p1) st2 = (Some p1, st2)
     \<and> generateChatID scripted (acc_token alice) (body_model hello) (acc_email alice) (Some p1) st2
          = (Inr None, st3)
     \<and> \<not> truthy None
     \<and> sendChatRequest scripted hello (rejecting, []) = (Inr failure, logger LogNoChatId st3)
     \<and> selections (snd (logger LogNoChatId st3)) = [Some alice]
     \<and> accountScript (fst (logger LogNoChatId st3)) = [Some bob])"
proof -
  have le: "(1::nat) \<le> MAX_RETRIES" by (simp add: MAX_RETRIES_def)
  define a1 where "a1 = snd (callGetNextAccount scripted (rejecting, []))"
  define a2 where "a2 = snd (callGetProxyForAccount scripted (acc_email alice) a1)"
  define a3 where "a3 = snd (generateChatID scripted (acc_token alice) (body_model hello)
                     (acc_email alice) (Some p1) a2)"
  have "fst (callGetNextAccount scripted (rejecting, [])) = Some alice" by code_simp
  then have A1: "callGetNextAccount scripted (rejecting, []) = (Some alice, a1)"
    unfolding a1_def by (rule pair_of_fst)
  have "fst (callGetProxyForAccount scripted (acc_email alice) a1) = Some p1"
    unfolding a1_def by code_simp
  then have A2: "callGetProxyForAccount scripted (acc_email alice) a1 = (Some p1, a2)"
    unfolding a2_def by (rule pair_of_fst)
  have A3: "makeAgent scripted ''sendChatRequest'' (Some p1) a2 = (Some p1, a2)"
    by (simp add: makeAgent_def scripted_def truthy_def p1_def)
  have "fst (generateChatID scripted (acc_token alice) (body_model hello) (acc_email alice)
               (Some p1) a2) = Inr None"
    unfolding a2_def a1_def by code_simp
  then have A4: "generateChatID scripted (acc_token alice) (body_model hello) (acc_email alice)
               (Some p1) a2 = (Inr None, a3)"
    unfolding a3_def by (rule pair_of_fst)
  have A5: "\<not> truthy None" by (simp add: truthy_def)
  have A6: "selections (snd (logger LogNoChatId a3)) = [Some alice]"
    unfolding a3_def a2_def a1_def by code_simp
  have A7: "accountScript (fst (logger LogNoChatId a3)) = [Some bob]"
    unfolding a3_def a2_def a1_def by code_simp
  from sendChatRequest_aborts_without_chat_id [OF le A1 A2 A3 A4 A5, where lastError = None]
  have A: "sendChatRequest scripted hello (rejecting, []) = (Inr failure, logger LogNoChatId a3)"
    by simp
  show ?thesis
    unfolding Let_def
    using le A1 A2 A3 A4 A5 A A6 A7
    unfolding a1_def a2_def a3_def
    by (intro conjI)
qed

text \<open>
  Claim C6. When \<open>getNextAccount\<close> returns none, \<open>sendChatRequest\<close> returns the failure
  object; the only events are that call and one log line, so no HTTP call is issued and no
  further attempt is made. The same holds in every later pass of the loop.
\<close>

theorem sendChatRequest_no_account:
  assumes "getNextAccount env (fst st) = (None, w')"
  shows "sendChatRequest env body st =
           (Inr failure, (w', snd st @ [GetNextAccount None, Log LogNoAccount]))
       \<and> (\<forall>attempt lastError. attempt \<le> MAX_RETRIES \<longrightarrow>
            sendChatRequest_loop env body attempt lastError st =
              (Inr failure, (w', snd st @ [GetNextAccount None, Log LogNoAccount])))"
  using sendChatRequest_loop_none [OF _ assms]
  by (simp add: sendChatRequest_def MAX_RETRIES_def)

theorem sendChatRequest_no_account_witness:
  "getNextAccount scripted (fst (deserted, [])) = (None, deserted)
   \<and> sendChatRequest scripted hello (deserted, []) =
       (Inr failure, (deserted, snd (deserted, []) @ [GetNextAccount None, Log LogNoAccount]))
   \<and> (2::nat) \<le> MAX_RETRIES
   \<and> sendChatRequest_loop scripted hello 2 (Some econnreset) (deserted, []) =
       (Inr failure, (deserted, snd (deserted, []) @ [GetNextAccount None, Log LogNoAccount]))"
proof -
  have h: "getNextAccount scripted (fst (deserted, [])) = (None, deserted)"
    by (simp add: scripted_def deserted_def)
  have le: "(2::nat) \<le> MAX_RETRIES" by (simp add: MAX_RETRIES_def)
  from sendChatRequest_no_account [OF h, of hello] h le show ?thesis by blast
qed

section \<open>Properties of the persistence store\<close>

subsection \<open>Saving and loading\<close>

lemma tell_fields [simp]:
  "cache (tell e s) = cache s" "mode (tell e s) = mode s"
  "initializationPromise (tell e s) = initializationPromise s"
  "isInitialized (tell e s) = isInitialized s" "backend (tell e s) = backend s"
  "io_trace (tell e s) = io_trace s @ [e]"
  by (simp_all add: tell_def)

lemma doMkdir_fields:
  assumes "doMkdir io s = (r, s')"
  shows "cache s' = cache s" "mode s' = mode s" "initializationPromise s' = initializationPromise s"
    "isInitialized s' = isInitialized s" "io_trace s' = io_trace s @ [Mkdir r]"
    "mkdir io (backend s) = (r, backend s')"
  using assms by (auto simp: doMkdir_def split: prod.splits)

lemma doWriteFile_fields:
  assumes "doWriteFile io t s = (r, s')"
  shows "cache s' = cache s" "mode s' = mode s" "initializationPromise s' = initializationPromise s"
    "isInitialized s' = isInitialized s" "io_trace s' = io_trace s @ [WriteFile t r]"
    "writeFile io t (backend s) = (r, backend s')"
  using assms by (auto simp: doWriteFile_def split: prod.splits)

lemma doRedisSet_fields:
  assumes "doRedisSet io t s = (r, s')"
  shows "cache s' = cache s" "mode s' = mode s" "initializationPromise s' = initializationPromise s"
    "isInitialized s' = isInitialized s" "io_trace s' = io_trace s @ [RedisSet t r]"
    "redis_set io t (backend s) = (r, backend s')"
  using assms by (auto simp: doRedisSet_def split: prod.splits)

lemma doReadFile_fields:
  assumes "doReadFile io s = (r, s')"
  shows "cache s' = cache s" "mode s' = mode s" "initializationPromise s' = initializationPromise s"
    "isInitialized s' = isInitialized s" "io_trace s' = io_trace s @ [ReadFile r]"
    "readFile io (backend s) = (r, backend s')"
  using assms by (auto simp: doReadFile_def split: prod.splits)

lemma doRedisGet_fields:
  assumes "doRedisGet io s = (r, s')"
  shows "cache s' = cache s" "mode s' = mode s" "initializationPromise s' = initializationPromise s"
    "isInitialized s' = isInitialized s" "io_trace s' = io_trace s @ [RedisGet r]"
    "redis_get io (backend s) = (r, backend s')"
  using assms by (auto simp: doRedisGet_def split: prod.splits)

lemma saveData_fields [simp]:
  "cache (saveData io doc s) = Some doc"
  "mode (saveData io doc s) = mode s"
  "initializationPromise (saveData io doc s) = initializationPromise s"
  "isInitialized (saveData io doc s) = isInitialized s"
  by (auto simp: saveData_def Let_def doMkdir_fields doWriteFile_fields doRedisSet_fields
           split: prod.splits option.splits)


lemma saveData_file_write_fails:
  assumes "mode s = ''file''" and "mkdir io (backend s) = (None, w1)"
      and "writeFile io (JSON_stringify io doc) w1 = (Some error, w2)"
  shows "saveData io doc s =
           s\<lparr>cache := Some doc, backend := w2,
             io_trace := io_trace s @ [Mkdir None, WriteFile (JSON_stringify io doc) (Some error),
                                       PLog (LogSaveFailed error)]\<rparr>"
  using assms by (simp add: saveData_def Let_def doMkdir_def doWriteFile_def tell_def)

lemma saveData_redis_set_fails:
  assumes "mode s = ''redis''"
      and "redis_set io (JSON_stringify io doc) (backend s) = (Some error, w1)"
  shows "saveData io doc s =
           s\<lparr>cache := Some doc, backend := w1,
             io_trace := io_trace s @ [RedisSet (JSON_stringify io doc) (Some error),
                                       PLog (LogSaveFailed error)]\<rparr>"
  using assms by (simp add: saveData_def Let_def doRedisSet_def tell_def)

lemmas machine_simps =
  machine_def DataPersistence_def initialize_def initialize_readError_def initialize_ok_def
  initialize_catch_def doReadFile_def doRedisGet_def doMkdir_def doWriteFile_def doRedisSet_def
  saveData_def getData_def getDataV2_def getDataV2_catch_def tell_def truthy_def Let_def
  emptyDisk_def corruptDisk_def fullDisk_def enoent_def enospc_def redisDown_def syntaxError_def

subsection \<open>Initialization\<close>

lemma DataPersistence_file_missing:
  assumes "readFile io w = (Inl error, w1)" and "err_code error = Some ''ENOENT''"
  shows "DataPersistence io (Some ''file'') w =
           (tell (PLog (LogInitDone ''file''))
              ((tell (PLog LogDefaultCreated)
                  (saveData io getDefaultData
                     \<lparr>mode = ''file'', cache = None, isInitialized = False,
                      initializationPromise = Resolved, backend = w1,
                      io_trace = [ReadFile (Inl error), PLog LogCreatingDefault]\<rparr>))
               \<lparr>isInitialized := True\<rparr>))\<lparr>initializationPromise := Resolved\<rparr>"
  using assms
  by (simp add: DataPersistence_def initialize_def initialize_readError_def initialize_ok_def
        doReadFile_def truthy_def Let_def tell_def)

lemma DataPersistence_redis_absent:
  assumes "redis_get io w = (Inr None, w1)"
  shows "DataPersistence io (Some ''redis'') w =
           \<lparr>mode = ''redis'', cache = Some getDefaultData, isInitialized = True,
            initializationPromise = Resolved, backend = w1,
            io_trace = [RedisGet (Inr None), PLog (LogInitDone ''redis'')]\<rparr>"
  using assms
  by (simp add: DataPersistence_def initialize_def initialize_ok_def
        doRedisGet_def truthy_def Let_def tell_def)

lemma DataPersistence_file_corrupt:
  assumes "readFile io w = (Inr t, w1)" and "JSON_parse io t = Inl error"
      and "err_code error \<noteq> Some ''ENOENT''"
  shows "DataPersistence io (Some ''file'') w =
           \<lparr>mode = ''file'', cache = None, isInitialized = False,
            initializationPromise = Rejected error, backend = w1,
            io_trace = [ReadFile (Inr t), PLog (LogInitFailed error)]\<rparr>"
  using assms
  by (simp add: DataPersistence_def initialize_def initialize_readError_def initialize_catch_def
        doReadFile_def truthy_def Let_def tell_def)

lemma DataPersistence_redis_corrupt:
  assumes "redis_get io w = (Inr (Some t), w1)" and "nonempty io t" and "JSON_parse io t = Inl error"
  shows "DataPersistence io (Some ''redis'') w =
           \<lparr>mode = ''redis'', cache = None, isInitialized = False,
            initializationPromise = Rejected error, backend = w1,
            io_trace = [RedisGet (Inr (Some t)), PLog (LogInitFailed error)]\<rparr>"
  using assms
  by (simp add: DataPersistence_def initialize_def initialize_catch_def
        doRedisGet_def truthy_def Let_def tell_def)

lemma getDataV2_file_corrupt:
  assumes "cache s = None" and "mode s = ''file''" and "readFile io (backend s) = (Inr t, w1)"
      and "JSON_parse io t = Inl error" and "err_code error \<noteq> Some ''ENOENT''"
  shows "getDataV2 io s =
           (Some getDefaultData,
            s\<lparr>backend := w1, io_trace := io_trace s @ [ReadFile (Inr t), PLog (LogLoadFailed error)]\<rparr>)"
  using assms
  by (simp add: getDataV2_def getDataV2_catch_def doReadFile_def tell_def)

lemma getDataV2_redis_corrupt:
  assumes "cache s = None" and "mode s = ''redis''"
      and "redis_get io (backend s) = (Inr (Some t), w1)" and "nonempty io t"
      and "JSON_parse io t = Inl error" and "err_code error \<noteq> Some ''ENOENT''"
  shows "getDataV2 io s =
           (Some getDefaultData,
            s\<lparr>backend := w1,
              io_trace := io_trace s @ [RedisGet (Inr (Some t)), PLog (LogLoadFailed error)]\<rparr>)"
  using assms
  by (simp add: getDataV2_def getDataV2_catch_def doRedisGet_def tell_def)


lemma DataPersistence_file_created:
  assumes "readFile io w = (Inl error, w1)" and "err_code error = Some ''ENOENT''"
      and "mkdir io w1 = (None, w2)"
      and "writeFile io (JSON_stringify io getDefaultData) w2 = (None, w3)"
  shows "DataPersistence io (Some ''file'') w =
           \<lparr>mode = ''file'', cache = Some getDefaultData, isInitialized = True,
            initializationPromise = Resolved, backend = w3,
            io_trace = [ReadFile (Inl error), PLog LogCreatingDefault, Mkdir None,
                        WriteFile (JSON_stringify io getDefaultData) None,
                        PLog LogDefaultCreated, PLog (LogInitDone ''file'')]\<rparr>"
  using assms
  by (simp add: DataPersistence_file_missing saveData_def doMkdir_def doWriteFile_def tell_def)

text \<open>
  Claim C8, as amended. The default document has its four keys present and empty. With
  the data file missing (\<open>ENOENT\<close>), the first version's initialization creates it through
  \<open>_saveData\<close> of the default document and resolves, and the load returns the default
  document; when directory and file can be written, the trace shows the write. With the
  cache key absent, initialization only puts the default document into the in-memory
  cache: the one event is the read, and nothing is written to the key.
\<close>

theorem first_load_on_empty_store:
  "accounts getDefaultData = Some []
 \<and> proxyBindings getDefaultData = Some \<lparr>own = Map.empty, plain = True\<rparr>
 \<and> proxyStatuses getDefaultData = Some Map.empty
 \<and> settings getDefaultData = Some \<lparr>own = Map.empty, plain = True\<rparr>
 \<and> (readFile io w = (Inl error, w1) \<and> err_code error = Some ''ENOENT'' \<longrightarrow>
      getData io (DataPersistence io (Some ''file'') w)
        = (Inr getDefaultData, DataPersistence io (Some ''file'') w)
    \<and> DataPersistence io (Some ''file'') w =
        (tell (PLog (LogInitDone ''file''))
           ((tell (PLog LogDefaultCreated)
               (saveData io getDefaultData
                  \<lparr>mode = ''file'', cache = None, isInitialized = False,
                   initializationPromise = Resolved, backend = w1,
                   io_trace = [ReadFile (Inl error), PLog LogCreatingDefault]\<rparr>))
            \<lparr>isInitialized := True\<rparr>))\<lparr>initializationPromise := Resolved\<rparr>
    \<and> (mkdir io w1 = (None, w2)
         \<and> writeFile io (JSON_stringify io getDefaultData) w2 = (None, w3) \<longrightarrow>
        DataPersistence io (Some ''file'') w =
          \<lparr>mode = ''file'', cache = Some getDefaultData, isInitialized = True,
           initializationPromise = Resolved, backend = w3,
           io_trace = [ReadFile (Inl error), PLog LogCreatingDefault, Mkdir None,
                       WriteFile (JSON_stringify io getDefaultData) None,
                       PLog LogDefaultCreated, PLog (LogInitDone ''file'')]\<rparr>))
 \<and> (redis_get io w = (Inr None, w1) \<longrightarrow>
      getData io (DataPersistence io (Some ''redis'') w)
        = (Inr getDefaultData, DataPersistence io (Some ''redis'') w)
    \<and> DataPersistence io (Some ''redis'') w =
        \<lparr>mode = ''redis'', cache = Some getDefaultData, isInitialized = True,
         initializationPromise = Resolved, backend = w1,
         io_trace = [RedisGet (Inr None), PLog (LogInitDone ''redis'')]\<rparr>)"
proof (intro conjI impI; (elim conjE)?)
  assume h: "readFile io w = (Inl error, w1)" "err_code error = Some ''ENOENT''"
  note eq = DataPersistence_file_missing [OF h]
  show "DataPersistence io (Some ''file'') w =
        (tell (PLog (LogInitDone ''file''))
           ((tell (PLog LogDefaultCreated)
               (saveData io getDefaultData
                  \<lparr>mode = ''file'', cache = None, isInitialized = False,
                   initializationPromise = Resolved, backend = w1,
                   io_trace = [ReadFile (Inl error), PLog LogCreatingDefault]\<rparr>))
            \<lparr>isInitialized := True\<rparr>))\<lparr>initializationPromise := Resolved\<rparr>"
    by (rule eq)
  show "getData io (DataPersistence io (Some ''file'') w)
        = (Inr getDefaultData, DataPersistence io (Some ''file'') w)"
    unfolding eq by (simp add: getData_def)
  assume "mkdir io w1 = (None, w2)"
     "writeFile io (JSON_stringify io getDefaultData) w2 = (None, w3)"
  from DataPersistence_file_created [OF h this]
  show "DataPersistence io (Some ''file'') w =
          \<lparr>mode = ''file'', cache = Some getDefaultData, isInitialized = True,
           initializationPromise = Resolved, backend = w3,
           io_trace = [ReadFile (Inl error), PLog LogCreatingDefault, Mkdir None,
                       WriteFile (JSON_stringify io getDefaultData) None,
                       PLog LogDefaultCreated, PLog (LogInitDone ''file'')]\<rparr>" .
next
  assume h: "redis_get io w = (Inr None, w1)"
  note eq = DataPersistence_redis_absent [OF h]
  show "DataPersistence io (Some ''redis'') w =
        \<lparr>mode = ''redis'', cache = Some getDefaultData, isInitialized = True,
         initializationPromise = Resolved, backend = w1,
         io_trace = [RedisGet (Inr None), PLog (LogInitDone ''redis'')]\<rparr>"
    by (rule eq)
  show "getData io (DataPersistence io (Some ''redis'') w)
        = (Inr getDefaultData, DataPersistence io (Some ''redis'') w)"
    unfolding eq by (simp add: getData_def)
qed (simp_all add: getDefaultData_def emptyObject_def)

theorem first_load_on_empty_store_witness:
  "readFile machine emptyDisk = (Inl enoent, emptyDisk)
   \<and> err_code enoent = Some ''ENOENT''
   \<and> mkdir machine emptyDisk = (None, emptyDisk)
   \<and> writeFile machine (JSON_stringify machine getDefaultData) emptyDisk
        = (None, emptyDisk\<lparr>dataFile := Some (Json (Some getDefaultData))\<rparr>)
   \<and> getData machine (DataPersistence machine (Some ''file'') emptyDisk)
        = (Inr getDefaultData, DataPersistence machine (Some ''file'') emptyDisk)
   \<and> DataPersistence machine (Some ''file'') emptyDisk =
        \<lparr>mode = ''file'', cache = Some getDefaultData, isInitialized = True,
         initializationPromise = Resolved,
         backend = emptyDisk\<lparr>dataFile := Some (Json (Some getDefaultData))\<rparr>,
         io_trace = [ReadFile (Inl enoent), PLog LogCreatingDefault, Mkdir None,
                     WriteFile (JSON_stringify machine getDefaultData) None,
                     PLog LogDefaultCreated, PLog (LogInitDone ''file'')]\<rparr>
   \<and> redis_get machine emptyDisk = (Inr None, emptyDisk)
   \<and> getData machine (DataPersistence machine (Some ''redis'') emptyDisk)
        = (Inr getDefaultData, DataPersistence machine (Some ''redis'') emptyDisk)
   \<and> DataPersistence machine (Some ''redis'') emptyDisk =
        \<lparr>mode = ''redis'', cache = Some getDefaultData, isInitialized = True,
         initializationPromise = Resolved, backend = emptyDisk,
         io_trace = [RedisGet (Inr None), PLog (LogInitDone ''redis'')]\<rparr>"
proof -
  have a1: "readFile machine emptyDisk = (Inl enoent, emptyDisk)"
    by (simp add: machine_def emptyDisk_def)
  have a2: "err_code enoent = Some ''ENOENT''" by (simp add: enoent_def)
  have a3: "mkdir machine emptyDisk = (None, emptyDisk)" by (simp add: machine_def)
  have a4: "writeFile machine (JSON_stringify machine getDefaultData) emptyDisk
        = (None, emptyDisk\<lparr>dataFile := Some (Json (Some getDefaultData))\<rparr>)"
    by (simp add: machine_def emptyDisk_def)
  have b1: "redis_get machine emptyDisk = (Inr None, emptyDisk)"
    by (simp add: machine_def emptyDisk_def)
  note T = first_load_on_empty_store [of machine emptyDisk enoent emptyDisk emptyDisk
             "emptyDisk\<lparr>dataFile := Some (Json (Some getDefaultData))\<rparr>"]
  from T a1 a2 have A1: "getData machine (DataPersistence machine (Some ''file'') emptyDisk)
        = (Inr getDefaultData, DataPersistence machine (Some ''file'') emptyDisk)"
    by blast
  from T a1 a2 a3 a4 have A2: "DataPersistence machine (Some ''file'') emptyDisk =
        \<lparr>mode = ''file'', cache = Some getDefaultData, isInitialized = True,
         initializationPromise = Resolved,
         backend = emptyDisk\<lparr>dataFile := Some (Json (Some getDefaultData))\<rparr>,
         io_trace = [ReadFile (Inl enoent), PLog LogCreatingDefault, Mkdir None,
                     WriteFile (JSON_stringify machine getDefaultData) None,
                     PLog LogDefaultCreated, PLog (LogInitDone ''file'')]\<rparr>"
    by blast
  from T b1 have B1: "getData machine (DataPersistence machine (Some ''redis'') emptyDisk)
        = (Inr getDefaultData, DataPersistence machine (Some ''redis'') emptyDisk)"
    by blast
  from T b1 have B2: "DataPersistence machine (Some ''redis'') emptyDisk =
        \<lparr>mode = ''redis'', cache = Some getDefaultData, isInitialized = True,
         initializationPromise = Resolved, backend = emptyDisk,
         io_trace = [RedisGet (Inr None), PLog (LogInitDone ''redis'')]\<rparr>"
    by blast
  show ?thesis using a1 a2 a3 a4 A1 A2 b1 B1 B2 by (intro conjI)
qed

text \<open>With the cache key absent the load returns the default document, but no write to the
  key is issued and the key is still absent afterwards.\<close>

theorem first_load_redis_not_saved:
  "redis_get machine emptyDisk = (Inr None, emptyDisk)
   \<and> fst (getData machine (DataPersistence machine (Some ''redis'') emptyDisk)) = Inr getDefaultData
   \<and> io_trace (DataPersistence machine (Some ''redis'') emptyDisk)
       = [RedisGet (Inr None), PLog (LogInitDone ''redis'')]
   \<and> redisKey (backend (DataPersistence machine (Some ''redis'') emptyDisk)) = None"
  by (simp add: machine_simps)

text \<open>
  Claim C9, as amended. In the second version, a stored text that does not parse makes
  \<open>_getData\<close> log the error and return the default document; the cache stays empty. In the
  first version the parse error is logged and rethrown by \<open>_initialize\<close>: the initialization
  promise is rejected with it and every load fails with that error.
\<close>

theorem corrupt_document_on_load:
  "(cache s = None \<and> mode s = ''file'' \<and> readFile io (backend s) = (Inr t, w1)
      \<and> JSON_parse io t = Inl error \<and> err_code error \<noteq> Some ''ENOENT'' \<longrightarrow>
      getDataV2 io s =
        (Some getDefaultData,
         s\<lparr>backend := w1, io_trace := io_trace s @ [ReadFile (Inr t), PLog (LogLoadFailed error)]\<rparr>))
 \<and> (cache s = None \<and> mode s = ''redis'' \<and> redis_get io (backend s) = (Inr (Some t), w1)
      \<and> nonempty io t \<and> JSON_parse io t = Inl error \<and> err_code error \<noteq> Some ''ENOENT'' \<longrightarrow>
      getDataV2 io s =
        (Some getDefaultData,
         s\<lparr>backend := w1,
           io_trace := io_trace s @ [RedisGet (Inr (Some t)), PLog (LogLoadFailed error)]\<rparr>))
 \<and> (readFile io w = (Inr t, w1) \<and> JSON_parse io t = Inl error
      \<and> err_code error \<noteq> Some ''ENOENT'' \<longrightarrow>
      DataPersistence io (Some ''file'') w =
        \<lparr>mode = ''file'', cache = None, isInitialized = False,
         initializationPromise = Rejected error, backend = w1,
         io_trace = [ReadFile (Inr t), PLog (LogInitFailed error)]\<rparr>
    \<and> fst (getData io (DataPersistence io (Some ''file'') w)) = Inl error)
 \<and> (redis_get io w = (Inr (Some t), w1) \<and> nonempty io t \<and> JSON_parse io t = Inl error \<longrightarrow>
      DataPersistence io (Some ''redis'') w =
        \<lparr>mode = ''redis'', cache = None, isInitialized = False,
         initializationPromise = Rejected error, backend = w1,
         io_trace = [RedisGet (Inr (Some t)), PLog (LogInitFailed error)]\<rparr>
    \<and> fst (getData io (DataPersistence io (Some ''redis'') w)) = Inl error)"
  using getDataV2_file_corrupt [of s io t w1 error] getDataV2_redis_corrupt [of s io t w1 error]
        DataPersistence_file_corrupt [of io w t w1 error]
        DataPersistence_redis_corrupt [of io w t w1 error]
  by (simp add: getData_def)

theorem corrupt_document_on_load_witness:
  "cache (DataPersistenceV2 machine (Some ''file'') corruptDisk) = None
   \<and> mode (DataPersistenceV2 machine (Some ''file'') corruptDisk) = ''file''
   \<and> readFile machine (backend (DataPersistenceV2 machine (Some ''file'') corruptDisk))
        = (Inr Garbage, corruptDisk)
   \<and> JSON_parse machine Garbage = Inl syntaxError
   \<and> err_code syntaxError \<noteq> Some ''ENOENT''
   \<and> fst (getDataV2 machine (DataPersistenceV2 machine (Some ''file'') corruptDisk))
        = Some getDefaultData
   \<and> cache (DataPersistenceV2 machine (Some ''redis'') corruptDisk) = None
   \<and> mode (DataPersistenceV2 machine (Some ''redis'') corruptDisk) = ''redis''
   \<and> redis_get machine (backend (DataPersistenceV2 machine (Some ''redis'') corruptDisk))
        = (Inr (Some Garbage), corruptDisk)
   \<and> nonempty machine Garbage
   \<and> fst (getDataV2 machine (DataPersistenceV2 machine (Some ''redis'') corruptDisk))
        = Some getDefaultData
   \<and> readFile machine corruptDisk = (Inr Garbage, corruptDisk)
   \<and> fst (getData machine (DataPersistence machine (Some ''file'') corruptDisk)) = Inl syntaxError
   \<and> redis_get machine corruptDisk = (Inr (Some Garbage), corruptDisk)
   \<and> fst (getData machine (DataPersistence machine (Some ''redis'') corruptDisk)) = Inl syntaxError"
proof -
  define f where "f = DataPersistenceV2 machine (Some ''file'') corruptDisk"
  define r where "r = DataPersistenceV2 machine (Some ''redis'') corruptDisk"
  note v2 = machine_simps DataPersistenceV2_def initializeV2_def
  have f1: "cache f = None" and f2: "mode f = ''file''"
    and f3: "readFile machine (backend f) = (Inr Garbage, corruptDisk)"
    by (simp_all add: f_def v2)
  have r1: "cache r = None" and r2: "mode r = ''redis''"
    and r3: "redis_get machine (backend r) = (Inr (Some Garbage), corruptDisk)"
    by (simp_all add: r_def v2)
  have p: "JSON_parse machine Garbage = Inl syntaxError" by (simp add: machine_def)
  have c: "err_code syntaxError \<noteq> Some ''ENOENT''" by (simp add: syntaxError_def)
  have n: "nonempty machine Garbage" by (simp add: machine_def)
  have g1: "readFile machine corruptDisk = (Inr Garbage, corruptDisk)"
    and g2: "redis_get machine corruptDisk = (Inr (Some Garbage), corruptDisk)"
    by (simp_all add: machine_def corruptDisk_def)
  from corrupt_document_on_load [of f machine Garbage corruptDisk syntaxError] f1 f2 f3 p c
  have F: "fst (getDataV2 machine f) = Some getDefaultData" by simp
  from corrupt_document_on_load [of r machine Garbage corruptDisk syntaxError] r1 r2 r3 p c n
  have R: "fst (getDataV2 machine r) = Some getDefaultData" by simp
  from corrupt_document_on_load [of _ machine Garbage corruptDisk syntaxError corruptDisk] g1 g2 p c n
  have G: "fst (getData machine (DataPersistence machine (Some ''file'') corruptDisk)) = Inl syntaxError"
    "fst (getData machine (DataPersistence machine (Some ''redis'') corruptDisk)) = Inl syntaxError"
    by blast+
  show ?thesis using f1 f2 f3 p c F r1 r2 r3 n R g1 g2 G
    unfolding f_def r_def by (intro conjI)
qed

text \<open>A data file that does not parse: in the first version initialization is rejected and
  every load fails.\<close>

theorem corrupt_file_rejects_first_version:
  "readFile machine corruptDisk = (Inr Garbage, corruptDisk)
   \<and> JSON_parse machine Garbage = Inl syntaxError
   \<and> initializationPromise (DataPersistence machine (Some ''file'') corruptDisk) = Rejected syntaxError
   \<and> fst (getData machine (DataPersistence machine (Some ''file'') corruptDisk)) = Inl syntaxError
   \<and> fst (loadAccounts machine (DataPersistence machine (Some ''file'') corruptDisk)) = Inl syntaxError"
  by (simp add: machine_simps loadAccounts_def)

subsection \<open>Mutators\<close>

lemma findIndexFrom_cases:
  "(findIndexFrom P k xs = - 1 \<and> (\<forall>x\<in>set xs. \<not> P x)) \<or>
   (\<exists>i<length xs. findIndexFrom P k xs = k + int i \<and> P (xs ! i) \<and> (\<forall>j<i. \<not> P (xs ! j)))"
  if "0 \<le> k"
  using that
proof (induction xs arbitrary: k)
  case Nil
  then show ?case by simp
next
  case (Cons x xs)
  show ?case
  proof (cases "P x")
    case True
    then show ?thesis by auto
  next
    case False
    from Cons.IH [of "k + 1"] Cons.prems
    consider "findIndexFrom P (k + 1) xs = - 1" "\<forall>x\<in>set xs. \<not> P x"
      | i where "i < length xs" "findIndexFrom P (k + 1) xs = k + 1 + int i" "P (xs ! i)"
          "\<forall>j<i. \<not> P (xs ! j)"
      by auto
    then show ?thesis
    proof cases
      case 1
      with False show ?thesis by simp
    next
      case 2
      have "\<forall>j<Suc i. \<not> P ((x # xs) ! j)"
        using False 2(4) by (auto simp: less_Suc_eq_0_disj)
      with 2 False show ?thesis
        by (intro disjI2 exI [of _ "Suc i"]) simp
    qed
  qed
qed

lemma findIndex_cases:
  "(findIndex P xs = - 1 \<and> (\<forall>x\<in>set xs. \<not> P x)) \<or>
   (\<exists>i<length xs. findIndex P xs = int i \<and> P (xs ! i) \<and> (\<forall>j<i. \<not> P (xs ! j)))"
  using findIndexFrom_cases [of 0 P xs] by (simp add: findIndex_def)


lemma getData_Inr:
  assumes "getData io s = (Inr data, s1)"
  shows "s1 = s" "initializationPromise s = Resolved"
        "data = (case cache s of Some d \<Rightarrow> d | None \<Rightarrow> getDefaultData)"
  using assms by (auto simp: getData_def split: promise.splits)

lemma getData_Inl:
  assumes "getData io s = (Inl error, s1)"
  shows "s1 = s" "initializationPromise s = Rejected error"
  using assms by (auto simp: getData_def split: promise.splits)

lemma getData_saveData:
  "initializationPromise s = Resolved \<Longrightarrow> fst (getData io (saveData io d s)) = Inr d"
  by (simp add: getData_def)

lemma assignProperty_other [simp]:
  "k \<noteq> key \<Longrightarrow> own (assignProperty isNull obj key v) k = own obj k"
  by (simp add: assignProperty_def)

lemma assignProperty_own:
  "own (assignProperty isNull obj key v) key =
     (if key = ''__proto__'' \<and> own obj key = None \<and> plain obj then None else Some v)"
  by (simp add: assignProperty_def)

lemma assignProperty_plain:
  "plain (assignProperty isNull obj key v) =
     (plain obj \<and> \<not> (key = ''__proto__'' \<and> own obj key = None \<and> isNull v))"
  by (auto simp: assignProperty_def)

lemma saveProxyBinding_frame:
  assumes "saveProxyBinding io email proxyUrl s = (Inr u, s')"
  shows "\<exists>data data' b b'. fst (getData io s) = Inr data \<and> fst (getData io s') = Inr data'
         \<and> proxyBindings data = Some b \<and> proxyBindings data' = Some b'
         \<and> (\<forall>e. e \<noteq> email \<longrightarrow> own b' e = own b e)
         \<and> own b' email =
             (if email = ''__proto__'' \<and> own b email = None \<and> plain b then None
              else Some proxyUrl)
         \<and> plain b' =
             (plain b \<and> \<not> (email = ''__proto__'' \<and> own b email = None \<and> proxyUrl = None))
         \<and> accounts data' = accounts data \<and> proxyStatuses data' = proxyStatuses data
         \<and> settings data' = settings data"
proof -
  obtain r s1 where g: "getData io s = (r, s1)" by (cases "getData io s")
  from assms g obtain data where r: "r = Inr data"
    by (cases r) (auto simp: saveProxyBinding_def)
  note gd = getData_Inr [OF g [unfolded r]]
  define b' where "b' = (\<lambda>b. assignProperty (\<lambda>v. v = None) b email proxyUrl)"
  from assms g r obtain b where b: "proxyBindings data = Some b"
    and s': "s' = saveData io (data\<lparr>proxyBindings := Some (b' b)\<rparr>) s"
    using gd(1) by (auto simp: saveProxyBinding_def b'_def split: option.splits)
  have "fst (getData io s') = Inr (data\<lparr>proxyBindings := Some (b' b)\<rparr>)"
    unfolding s' by (rule getData_saveData [OF gd(2)])
  with g r b show ?thesis
    by (simp add: b'_def assignProperty_own assignProperty_plain)
qed

lemma saveSetting_frame:
  assumes "saveSetting io key value s = (Inr u, s')"
  shows "\<exists>data data' m m'. fst (getData io s) = Inr data \<and> fst (getData io s') = Inr data'
         \<and> m = (case settings data of Some m \<Rightarrow> m | None \<Rightarrow> emptyObject)
         \<and> settings data' = Some m'
         \<and> (\<forall>k. k \<noteq> key \<longrightarrow> own m' k = own m k)
         \<and> own m' key =
             (if key = ''__proto__'' \<and> own m key = None \<and> plain m then None else Some value)
         \<and> plain m' =
             (plain m \<and> \<not> (key = ''__proto__'' \<and> own m key = None \<and> value = JNull))
         \<and> accounts data' = accounts data \<and> proxyBindings data' = proxyBindings data
         \<and> proxyStatuses data' = proxyStatuses data"
proof -
  obtain r s1 where g: "getData io s = (r, s1)" by (cases "getData io s")
  from assms g obtain data where r: "r = Inr data"
    by (cases r) (auto simp: saveSetting_def)
  note gd = getData_Inr [OF g [unfolded r]]
  define m where "m = (case settings data of Some m \<Rightarrow> m | None \<Rightarrow> emptyObject)"
  define m' where "m' = assignProperty (\<lambda>v. v = JNull) m key value"
  from assms g r gd(1)
  have s': "s' = saveData io (data\<lparr>settings := Some m'\<rparr>) s"
    by (auto simp: saveSetting_def m_def m'_def Let_def split: option.splits)
  have 1: "fst (getData io s) = Inr data" using g r by simp
  have 2: "fst (getData io s') = Inr (data\<lparr>settings := Some m'\<rparr>)"
    unfolding s' by (rule getData_saveData [OF gd(2)])
  have 3: "\<forall>k. k \<noteq> key \<longrightarrow> own m' k = own m k" by (simp add: m'_def)
  have 4: "own m' key =
             (if key = ''__proto__'' \<and> own m key = None \<and> plain m then None else Some value)"
    by (simp add: m'_def assignProperty_own)
  have 5: "plain m' =
             (plain m \<and> \<not> (key = ''__proto__'' \<and> own m key = None \<and> value = JNull))"
    by (simp add: m'_def assignProperty_plain)
  show ?thesis
    apply (rule exI [of _ data], rule exI [of _ "data\<lparr>settings := Some m'\<rparr>"],
           rule exI [of _ m], rule exI [of _ m'])
    using 1 2 3 4 5 m_def by (intro conjI) simp_all
qed

lemma saveAccount_frame:
  assumes "saveAccount io email accountData s = (Inr u, s')"
  shows "\<exists>data data' accs accs'. fst (getData io s) = Inr data \<and> fst (getData io s') = Inr data'
         \<and> accounts data = Some accs \<and> accounts data' = Some accs'
         \<and> ((\<exists>i<length accs. (accs ! i) ''email'' = Some (JStr email)
                \<and> (\<forall>j<i. (accs ! j) ''email'' \<noteq> Some (JStr email))
                \<and> length accs' = length accs
                \<and> (\<forall>k. (accs' ! i) k = (case accountData k of Some v \<Rightarrow> Some v | None \<Rightarrow> (accs ! i) k))
                \<and> (\<forall>j<length accs. j \<noteq> i \<longrightarrow> accs' ! j = accs ! j))
            \<or> ((\<forall>acc\<in>set accs. acc ''email'' \<noteq> Some (JStr email))
                \<and> accs' = accs @ [[''email'' \<mapsto> JStr email] ++ accountData]))
         \<and> proxyBindings data' = proxyBindings data \<and> proxyStatuses data' = proxyStatuses data
         \<and> settings data' = settings data"
proof -
  obtain r s1 where g: "getData io s = (r, s1)" by (cases "getData io s")
  from assms g obtain data where r: "r = Inr data"
    by (cases r) (auto simp: saveAccount_def)
  note gd = getData_Inr [OF g [unfolded r]]
  define P where "P = (\<lambda>acc :: jsobject. acc ''email'' = Some (JStr email))"
  from assms g r obtain accs where accs: "accounts data = Some accs"
    by (auto simp: saveAccount_def split: option.splits)
  define accs' where "accs' = (if findIndex P accs \<noteq> - 1
                             then accs[nat (findIndex P accs) := (accs ! nat (findIndex P accs)) ++ accountData]
                             else accs @ [[''email'' \<mapsto> JStr email] ++ accountData])"
  from assms g r accs gd(1)
  have s': "s' = saveData io (data\<lparr>accounts := Some accs'\<rparr>) s"
    by (auto simp: saveAccount_def Let_def accs'_def P_def)
  have load: "fst (getData io s') = Inr (data\<lparr>accounts := Some accs'\<rparr>)"
    unfolding s' by (rule getData_saveData [OF gd(2)])
  from findIndex_cases [of P accs]
  have "(\<exists>i<length accs. (accs ! i) ''email'' = Some (JStr email)
                \<and> (\<forall>j<i. (accs ! j) ''email'' \<noteq> Some (JStr email))
                \<and> length accs' = length accs
                \<and> (\<forall>k. (accs' ! i) k = (case accountData k of Some v \<Rightarrow> Some v | None \<Rightarrow> (accs ! i) k))
                \<and> (\<forall>j<length accs. j \<noteq> i \<longrightarrow> accs' ! j = accs ! j))
            \<or> ((\<forall>acc\<in>set accs. acc ''email'' \<noteq> Some (JStr email))
                \<and> accs' = accs @ [[''email'' \<mapsto> JStr email] ++ accountData])"
  proof (elim disjE conjE exE)
    assume "findIndex P accs = - 1" "\<forall>x\<in>set accs. \<not> P x"
    then show ?thesis by (simp add: accs'_def P_def)
  next
    fix i assume i: "i < length accs" "findIndex P accs = int i" "P (accs ! i)"
      "\<forall>j<i. \<not> P (accs ! j)"
    then have "accs' = accs[i := (accs ! i) ++ accountData]"
      by (simp add: accs'_def)
    with i show ?thesis
      by (intro disjI1 exI [of _ i]) (auto simp: P_def map_add_def split: option.splits)
  qed
  with g r accs load show ?thesis by simp
qed

lemma mutators_throw_unchanged:
  "saveProxyBinding io email proxyUrl s = (Inl e, s') \<Longrightarrow> s' = s"
  "saveSetting io key value s = (Inl e, s') \<Longrightarrow> s' = s"
  "saveAccount io email accountData s = (Inl e, s') \<Longrightarrow> s' = s"
  "saveProxyStatuses io statuses s = (Inl e, s') \<Longrightarrow> s' = s"
  by (auto simp: saveProxyBinding_def saveSetting_def saveAccount_def saveProxyStatuses_def
        getData_def Let_def split: promise.splits option.splits)

text \<open>
  Claim C10. When \<open>saveProxyBinding\<close>, \<open>saveSetting\<close> or \<open>saveAccount\<close> returns, the document
  loaded afterwards differs from the one loaded before in one place only. Every binding
  under another email and every setting under another key is the same, and so are the
  other three top-level properties. The entry itself holds the new value, with one
  exception: for the name \<open>__proto__\<close> on a plain object that has no own property of that
  name the assignment goes to the prototype setter, so no entry is made, and the object
  loses its prototype when the value is \<open>null\<close>. \<open>saveAccount\<close> changes the first account
  carrying the email, laying the new fields over the old ones, or appends a new last
  element when no account carries it; all other accounts are the same. When a mutator
  throws, the store is unchanged.
\<close>

theorem mutators_change_one_entry:
  "(saveProxyBinding io email proxyUrl s = (Inr u, sb) \<longrightarrow>
      (\<exists>data data' b b'. fst (getData io s) = Inr data \<and> fst (getData io sb) = Inr data'
         \<and> proxyBindings data = Some b \<and> proxyBindings data' = Some b'
         \<and> (\<forall>e. e \<noteq> email \<longrightarrow> own b' e = own b e)
         \<and> own b' email =
             (if email = ''__proto__'' \<and> own b email = None \<and> plain b then None
              else Some proxyUrl)
         \<and> plain b' =
             (plain b \<and> \<not> (email = ''__proto__'' \<and> own b email = None \<and> proxyUrl = None))
         \<and> accounts data' = accounts data \<and> proxyStatuses data' = proxyStatuses data
         \<and> settings data' = settings data))
 \<and> (saveSetting io key value s = (Inr u, ss) \<longrightarrow>
      (\<exists>data data' m m'. fst (getData io s) = Inr data \<and> fst (getData io ss) = Inr data'
         \<and> m = (case settings data of Some m \<Rightarrow> m | None \<Rightarrow> emptyObject)
         \<and> settings data' = Some m'
         \<and> (\<forall>k. k \<noteq> key \<longrightarrow> own m' k = own m k)
         \<and> own m' key =
             (if key = ''__proto__'' \<and> own m key = None \<and> plain m then None else Some value)
         \<and> plain m' =
             (plain m \<and> \<not> (key = ''__proto__'' \<and> own m key = None \<and> value = JNull))
         \<and> accounts data' = accounts data \<and> proxyBindings data' = proxyBindings data
         \<and> proxyStatuses data' = proxyStatuses data))
 \<and> (saveAccount io email accountData s = (Inr u, sa) \<longrightarrow>
      (\<exists>data data' accs accs'. fst (getData io s) = Inr data \<and> fst (getData io sa) = Inr data'
         \<and> accounts data = Some accs \<and> accounts data' = Some accs'
         \<and> ((\<exists>i<length accs. (accs ! i) ''email'' = Some (JStr email)
                \<and> (\<forall>j<i. (accs ! j) ''email'' \<noteq> Some (JStr email))
                \<and> length accs' = length accs
                \<and> (\<forall>k. (accs' ! i) k = (case accountData k of Some v \<Rightarrow> Some v | None \<Rightarrow> (accs ! i) k))
                \<and> (\<forall>j<length accs. j \<noteq> i \<longrightarrow> accs' ! j = accs ! j))
            \<or> ((\<forall>acc\<in>set accs. acc ''email'' \<noteq> Some (JStr email))
                \<and> accs' = accs @ [[''email'' \<mapsto> JStr email] ++ accountData]))
         \<and> proxyBindings data' = proxyBindings data \<and> proxyStatuses data' = proxyStatuses data
         \<and> settings data' = settings data))
 \<and> (saveProxyBinding io email proxyUrl s = (Inl error, sb) \<longrightarrow> sb = s)
 \<and> (saveSetting io key value s = (Inl error, ss) \<longrightarrow> ss = s)
 \<and> (saveAccount io email accountData s = (Inl error, sa) \<longrightarrow> sa = s)"
  using saveProxyBinding_frame [of io email proxyUrl s u sb]
        saveSetting_frame [of io key "value" s u ss]
        saveAccount_frame [of io email accountData s u sa]
        mutators_throw_unchanged(1) [of io email proxyUrl s error sb]
        mutators_throw_unchanged(2) [of io key "value" s error ss]
        mutators_throw_unchanged(3) [of io email accountData s error sa]
  by (intro conjI impI) assumption+

lemmas loaded_simps = loaded_def doc2_def accountA_def accountB_def machine_simps
  saveProxyBinding_def saveSetting_def saveAccount_def findIndex_def getDefaultData_def
  assignProperty_def emptyObject_def

theorem mutators_change_one_entry_witness:
  "fst (saveProxyBinding machine ''b@x'' (Some p2) loaded) = Inr ()
   \<and> fst (getData machine (snd (saveProxyBinding machine ''b@x'' (Some p2) loaded)))
       = Inr (doc2\<lparr>proxyBindings :=
                     Some \<lparr>own = [''a@x'' \<mapsto> Some p1, ''b@x'' \<mapsto> Some p2], plain = True\<rparr>\<rparr>)
   \<and> fst (saveSetting machine ''theme'' (JStr ''dark'') loaded) = Inr ()
   \<and> fst (getData machine (snd (saveSetting machine ''theme'' (JStr ''dark'') loaded)))
       = Inr (doc2\<lparr>settings :=
                     Some \<lparr>own = [''apiKey'' \<mapsto> JStr ''k1'', ''theme'' \<mapsto> JStr ''dark''],
                           plain = True\<rparr>\<rparr>)
   \<and> fst (saveSetting machine ''__proto__'' (JStr ''dark'') loaded) = Inr ()
   \<and> fst (getData machine (snd (saveSetting machine ''__proto__'' (JStr ''dark'') loaded)))
       = Inr doc2
   \<and> fst (saveProxyBinding machine ''__proto__'' None loaded) = Inr ()
   \<and> fst (getData machine (snd (saveProxyBinding machine ''__proto__'' None loaded)))
       = Inr (doc2\<lparr>proxyBindings := Some \<lparr>own = [''a@x'' \<mapsto> Some p1], plain = False\<rparr>\<rparr>)
   \<and> fst (getData machine (snd (saveProxyBinding machine ''__proto__'' (Some p2)
             (snd (saveProxyBinding machine ''__proto__'' None loaded)))))
       = Inr (doc2\<lparr>proxyBindings :=
                     Some \<lparr>own = [''a@x'' \<mapsto> Some p1, ''__proto__'' \<mapsto> Some p2],
                           plain = False\<rparr>\<rparr>)
   \<and> fst (saveAccount machine ''b@x'' [''token'' \<mapsto> JStr ''t-b''] loaded) = Inr ()
   \<and> fst (getData machine (snd (saveAccount machine ''b@x'' [''token'' \<mapsto> JStr ''t-b''] loaded)))
       = Inr (doc2\<lparr>accounts := Some [accountA, accountB(''token'' \<mapsto> JStr ''t-b'')]\<rparr>)
   \<and> fst (saveAccount machine ''c@x'' [''token'' \<mapsto> JStr ''t-c''] loaded) = Inr ()
   \<and> fst (getData machine (snd (saveAccount machine ''c@x'' [''token'' \<mapsto> JStr ''t-c''] loaded)))
       = Inr (doc2\<lparr>accounts := Some [accountA, accountB,
                                      [''email'' \<mapsto> JStr ''c@x'', ''token'' \<mapsto> JStr ''t-c'']]\<rparr>)
   \<and> saveProxyBinding machine ''b@x'' (Some p2) (DataPersistence machine (Some ''file'') corruptDisk)
       = (Inl syntaxError, DataPersistence machine (Some ''file'') corruptDisk)
   \<and> (\<exists>data data' b b'.
         fst (getData machine loaded) = Inr data
       \<and> fst (getData machine (snd (saveProxyBinding machine ''b@x'' (Some p2) loaded))) = Inr data'
       \<and> proxyBindings data = Some b \<and> proxyBindings data' = Some b'
       \<and> (\<forall>e. e \<noteq> ''b@x'' \<longrightarrow> own b' e = own b e)
       \<and> accounts data' = accounts data \<and> proxyStatuses data' = proxyStatuses data
       \<and> settings data' = settings data)
   \<and> (\<exists>data data' m m'.
         fst (getData machine loaded) = Inr data
       \<and> fst (getData machine (snd (saveSetting machine ''__proto__'' (JStr ''dark'') loaded)))
           = Inr data'
       \<and> m = (case settings data of Some m \<Rightarrow> m | None \<Rightarrow> emptyObject)
       \<and> settings data' = Some m'
       \<and> (\<forall>k. k \<noteq> ''__proto__'' \<longrightarrow> own m' k = own m k)
       \<and> accounts data' = accounts data \<and> proxyBindings data' = proxyBindings data
       \<and> proxyStatuses data' = proxyStatuses data)
   \<and> (\<exists>data data'.
         fst (getData machine loaded) = Inr data
       \<and> fst (getData machine (snd (saveAccount machine ''b@x'' [''token'' \<mapsto> JStr ''t-b''] loaded)))
           = Inr data'
       \<and> proxyBindings data' = proxyBindings data \<and> proxyStatuses data' = proxyStatuses data
       \<and> settings data' = settings data)"
proof -
  have b: "fst (saveProxyBinding machine ''b@x'' (Some p2) loaded) = Inr ()"
    by (simp add: loaded_simps)
  have b': "fst (getData machine (snd (saveProxyBinding machine ''b@x'' (Some p2) loaded)))
       = Inr (doc2\<lparr>proxyBindings :=
                     Some \<lparr>own = [''a@x'' \<mapsto> Some p1, ''b@x'' \<mapsto> Some p2], plain = True\<rparr>\<rparr>)"
    by (simp add: loaded_simps)
  have s: "fst (saveSetting machine ''theme'' (JStr ''dark'') loaded) = Inr ()"
    by (simp add: loaded_simps)
  have s': "fst (getData machine (snd (saveSetting machine ''theme'' (JStr ''dark'') loaded)))
       = Inr (doc2\<lparr>settings :=
                     Some \<lparr>own = [''apiKey'' \<mapsto> JStr ''k1'', ''theme'' \<mapsto> JStr ''dark''],
                           plain = True\<rparr>\<rparr>)"
    by (simp add: loaded_simps)
  have p: "fst (saveSetting machine ''__proto__'' (JStr ''dark'') loaded) = Inr ()"
    by (simp add: loaded_simps)
  have p': "fst (getData machine (snd (saveSetting machine ''__proto__'' (JStr ''dark'') loaded)))
       = Inr doc2"
    by (simp add: loaded_simps)
  have q: "fst (saveProxyBinding machine ''__proto__'' None loaded) = Inr ()"
    by (simp add: loaded_simps)
  have q': "fst (getData machine (snd (saveProxyBinding machine ''__proto__'' None loaded)))
       = Inr (doc2\<lparr>proxyBindings := Some \<lparr>own = [''a@x'' \<mapsto> Some p1], plain = False\<rparr>\<rparr>)"
    by (simp add: loaded_simps)
  have q'': "fst (getData machine (snd (saveProxyBinding machine ''__proto__'' (Some p2)
             (snd (saveProxyBinding machine ''__proto__'' None loaded)))))
       = Inr (doc2\<lparr>proxyBindings :=
                     Some \<lparr>own = [''a@x'' \<mapsto> Some p1, ''__proto__'' \<mapsto> Some p2],
                           plain = False\<rparr>\<rparr>)"
    by (simp add: loaded_simps)
  have a: "fst (saveAccount machine ''b@x'' [''token'' \<mapsto> JStr ''t-b''] loaded) = Inr ()"
    by (simp add: loaded_simps)
  have a': "fst (getData machine (snd (saveAccount machine ''b@x'' [''token'' \<mapsto> JStr ''t-b''] loaded)))
       = Inr (doc2\<lparr>accounts := Some [accountA, accountB(''token'' \<mapsto> JStr ''t-b'')]\<rparr>)"
    by (simp add: loaded_simps)
  have c: "fst (saveAccount machine ''c@x'' [''token'' \<mapsto> JStr ''t-c''] loaded) = Inr ()"
    by (simp add: loaded_simps)
  have c': "fst (getData machine (snd (saveAccount machine ''c@x'' [''token'' \<mapsto> JStr ''t-c''] loaded)))
       = Inr (doc2\<lparr>accounts := Some [accountA, accountB,
                                      [''email'' \<mapsto> JStr ''c@x'', ''token'' \<mapsto> JStr ''t-c'']]\<rparr>)"
    by (simp add: loaded_simps)
  have "fst (saveProxyBinding machine ''b@x'' (Some p2)
              (DataPersistence machine (Some ''file'') corruptDisk)) = Inl syntaxError"
    by (simp add: loaded_simps)
  note rf = pair_of_fst [OF this]
  from mutators_change_one_entry [where io = machine and email = "''b@x''" and proxyUrl = "Some p2"
         and s = "DataPersistence machine (Some ''file'') corruptDisk" and error = syntaxError
         and sb = "snd (saveProxyBinding machine ''b@x'' (Some p2)
                          (DataPersistence machine (Some ''file'') corruptDisk))",
         THEN conjunct2, THEN conjunct2, THEN conjunct2, THEN conjunct1, THEN mp, OF rf] rf
  have r: "saveProxyBinding machine ''b@x'' (Some p2) (DataPersistence machine (Some ''file'') corruptDisk)
       = (Inl syntaxError, DataPersistence machine (Some ''file'') corruptDisk)"
    by simp
  from mutators_change_one_entry [where io = machine and email = "''b@x''" and proxyUrl = "Some p2"
         and s = loaded and u = "()"
         and sb = "snd (saveProxyBinding machine ''b@x'' (Some p2) loaded)",
         THEN conjunct1, THEN mp, OF pair_of_fst [OF b]]
  have B: "\<exists>data data' b b'.
         fst (getData machine loaded) = Inr data
       \<and> fst (getData machine (snd (saveProxyBinding machine ''b@x'' (Some p2) loaded))) = Inr data'
       \<and> proxyBindings data = Some b \<and> proxyBindings data' = Some b'
       \<and> (\<forall>e. e \<noteq> ''b@x'' \<longrightarrow> own b' e = own b e)
       \<and> accounts data' = accounts data \<and> proxyStatuses data' = proxyStatuses data
       \<and> settings data' = settings data"
    by (elim exE conjE, intro exI conjI) assumption+
  from mutators_change_one_entry [where io = machine and key = "''__proto__''" and s = loaded
         and u = "()" and ss = "snd (saveSetting machine ''__proto__'' (JStr ''dark'') loaded)",
         THEN conjunct2, THEN conjunct1, THEN mp, OF pair_of_fst [OF p]]
  have S: "\<exists>data data' m m'.
         fst (getData machine loaded) = Inr data
       \<and> fst (getData machine (snd (saveSetting machine ''__proto__'' (JStr ''dark'') loaded)))
           = Inr data'
       \<and> m = (case settings data of Some m \<Rightarrow> m | None \<Rightarrow> emptyObject)
       \<and> settings data' = Some m'
       \<and> (\<forall>k. k \<noteq> ''__proto__'' \<longrightarrow> own m' k = own m k)
       \<and> accounts data' = accounts data \<and> proxyBindings data' = proxyBindings data
       \<and> proxyStatuses data' = proxyStatuses data"
    by (elim exE conjE, intro exI conjI) assumption+
  from mutators_change_one_entry [where io = machine and email = "''b@x''"
         and accountData = "[''token'' \<mapsto> JStr ''t-b'']" and s = loaded and u = "()"
         and sa = "snd (saveAccount machine ''b@x'' [''token'' \<mapsto> JStr ''t-b''] loaded)",
         THEN conjunct2, THEN conjunct2, THEN conjunct1, THEN mp, OF pair_of_fst [OF a]]
  have A: "\<exists>data data'.
         fst (getData machine loaded) = Inr data
       \<and> fst (getData machine (snd (saveAccount machine ''b@x'' [''token'' \<mapsto> JStr ''t-b''] loaded)))
           = Inr data'
       \<and> proxyBindings data' = proxyBindings data \<and> proxyStatuses data' = proxyStatuses data
       \<and> settings data' = settings data"
    by (elim exE conjE, intro exI conjI) assumption+
  from b b' s s' p p' q q' q'' a a' c c' r B S A show ?thesis by (intro conjI)
qed

subsection \<open>Load after save\<close>

lemma mutators_save:
  "saveAccount io email accountData s = (Inr u, s') \<Longrightarrow>
     initializationPromise s = Resolved \<and> (\<exists>d. s' = saveData io d s)"
  "saveProxyBinding io email proxyUrl s = (Inr u, s') \<Longrightarrow>
     initializationPromise s = Resolved \<and> (\<exists>d. s' = saveData io d s)"
  "saveProxyStatuses io statuses s = (Inr u, s') \<Longrightarrow>
     initializationPromise s = Resolved \<and> (\<exists>d. s' = saveData io d s)"
  "saveSetting io key value s = (Inr u, s') \<Longrightarrow>
     initializationPromise s = Resolved \<and> (\<exists>d. s' = saveData io d s)"
  by (auto simp: saveAccount_def saveProxyBinding_def saveProxyStatuses_def saveSetting_def
        getData_def Let_def split: promise.splits option.splits)

lemma saved_then_loaded:
  assumes "initializationPromise s = Resolved \<and> (\<exists>d. s' = saveData io d s)"
  shows "initializationPromise s = Resolved
       \<and> (\<exists>d. s' = saveData io d s \<and> getData io s' = (Inr d, s'))"
  using assms by (auto simp: getData_def)

text \<open>
  Claim C7. A load that follows a save returns the saved document, whatever the mode and
  whatever the outcome of the write: \<open>_saveData\<close> puts the document into the cache before
  it writes, and an error of the write is caught and logged. The second version's
  \<open>_getData\<close> returns the cache at once. The first version's \<open>_getData\<close> awaits the
  initialization promise first, and every save of the class runs behind a resolved one:
  each mutator awaits \<open>_getData\<close> before it calls \<open>_saveData\<close>, so a mutator that returns
  has run on a resolved store, and the load after it returns the very document it saved; a
  mutator that throws has saved nothing. The one other save, that of the default document
  for a missing file, belongs to an initialization that resolves, and the load after it
  returns the default document.
\<close>

theorem load_after_save:
  "(initializationPromise s = Resolved \<longrightarrow>
      getData io (saveData io doc s) = (Inr doc, saveData io doc s))
 \<and> getDataV2 io (saveData io doc s) = (Some doc, saveData io doc s)
 \<and> (mode s = ''file'' \<and> mkdir io (backend s) = (None, w1)
      \<and> writeFile io (JSON_stringify io doc) w1 = (Some writeError, w2) \<longrightarrow>
      saveData io doc s =
        s\<lparr>cache := Some doc, backend := w2,
          io_trace := io_trace s @ [Mkdir None, WriteFile (JSON_stringify io doc) (Some writeError),
                                    PLog (LogSaveFailed writeError)]\<rparr>)
 \<and> (mode s = ''redis''
      \<and> redis_set io (JSON_stringify io doc) (backend s) = (Some writeError, w1) \<longrightarrow>
      saveData io doc s =
        s\<lparr>cache := Some doc, backend := w1,
          io_trace := io_trace s @ [RedisSet (JSON_stringify io doc) (Some writeError),
                                    PLog (LogSaveFailed writeError)]\<rparr>)
 \<and> (saveAccount io email accountData s = (Inr u, sa) \<longrightarrow>
      initializationPromise s = Resolved
    \<and> (\<exists>d. sa = saveData io d s \<and> getData io sa = (Inr d, sa)))
 \<and> (saveProxyBinding io email proxyUrl s = (Inr u, sb) \<longrightarrow>
      initializationPromise s = Resolved
    \<and> (\<exists>d. sb = saveData io d s \<and> getData io sb = (Inr d, sb)))
 \<and> (saveProxyStatuses io statuses s = (Inr u, sp) \<longrightarrow>
      initializationPromise s = Resolved
    \<and> (\<exists>d. sp = saveData io d s \<and> getData io sp = (Inr d, sp)))
 \<and> (saveSetting io key value s = (Inr u, ss) \<longrightarrow>
      initializationPromise s = Resolved
    \<and> (\<exists>d. ss = saveData io d s \<and> getData io ss = (Inr d, ss)))
 \<and> (saveAccount io email accountData s = (Inl e, sa) \<longrightarrow> sa = s)
 \<and> (saveProxyBinding io email proxyUrl s = (Inl e, sb) \<longrightarrow> sb = s)
 \<and> (saveProxyStatuses io statuses s = (Inl e, sp) \<longrightarrow> sp = s)
 \<and> (saveSetting io key value s = (Inl e, ss) \<longrightarrow> ss = s)
 \<and> (readFile io w = (Inl readError, w3) \<and> err_code readError = Some ''ENOENT'' \<longrightarrow>
      getData io (DataPersistence io (Some ''file'') w)
        = (Inr getDefaultData, DataPersistence io (Some ''file'') w))"
proof (intro conjI impI)
  show "getDataV2 io (saveData io doc s) = (Some doc, saveData io doc s)"
    by (simp add: getDataV2_def)
next
  assume "initializationPromise s = Resolved"
  then show "getData io (saveData io doc s) = (Inr doc, saveData io doc s)"
    by (simp add: getData_def)
next
  assume "mode s = ''file'' \<and> mkdir io (backend s) = (None, w1)
      \<and> writeFile io (JSON_stringify io doc) w1 = (Some writeError, w2)"
  then show "saveData io doc s =
        s\<lparr>cache := Some doc, backend := w2,
          io_trace := io_trace s @ [Mkdir None, WriteFile (JSON_stringify io doc) (Some writeError),
                                    PLog (LogSaveFailed writeError)]\<rparr>"
    using saveData_file_write_fails [of s io w1 doc writeError w2] by simp
next
  assume "mode s = ''redis''
      \<and> redis_set io (JSON_stringify io doc) (backend s) = (Some writeError, w1)"
  then show "saveData io doc s =
        s\<lparr>cache := Some doc, backend := w1,
          io_trace := io_trace s @ [RedisSet (JSON_stringify io doc) (Some writeError),
                                    PLog (LogSaveFailed writeError)]\<rparr>"
    using saveData_redis_set_fails [of s io doc writeError w1] by simp
next
  assume h: "saveAccount io email accountData s = (Inr u, sa)"
  from saved_then_loaded [OF mutators_save(1) [OF h]]
  show "initializationPromise s = Resolved"
    and "\<exists>d. sa = saveData io d s \<and> getData io sa = (Inr d, sa)"
    by blast+
next
  assume h: "saveProxyBinding io email proxyUrl s = (Inr u, sb)"
  from saved_then_loaded [OF mutators_save(2) [OF h]]
  show "initializationPromise s = Resolved"
    and "\<exists>d. sb = saveData io d s \<and> getData io sb = (Inr d, sb)"
    by blast+
next
  assume h: "saveProxyStatuses io statuses s = (Inr u, sp)"
  from saved_then_loaded [OF mutators_save(3) [OF h]]
  show "initializationPromise s = Resolved"
    and "\<exists>d. sp = saveData io d s \<and> getData io sp = (Inr d, sp)"
    by blast+
next
  assume h: "saveSetting io key value s = (Inr u, ss)"
  from saved_then_loaded [OF mutators_save(4) [OF h]]
  show "initializationPromise s = Resolved"
    and "\<exists>d. ss = saveData io d s \<and> getData io ss = (Inr d, ss)"
    by blast+
next
  assume "saveAccount io email accountData s = (Inl e, sa)"
  then show "sa = s" by (rule mutators_throw_unchanged(3))
next
  assume "saveProxyBinding io email proxyUrl s = (Inl e, sb)"
  then show "sb = s" by (rule mutators_throw_unchanged(1))
next
  assume "saveProxyStatuses io statuses s = (Inl e, sp)"
  then show "sp = s" by (rule mutators_throw_unchanged(4))
next
  assume "saveSetting io key value s = (Inl e, ss)"
  then show "ss = s" by (rule mutators_throw_unchanged(2))
next
  assume "readFile io w = (Inl readError, w3) \<and> err_code readError = Some ''ENOENT''"
  then have h: "readFile io w = (Inl readError, w3)" "err_code readError = Some ''ENOENT''"
    by simp_all
  show "getData io (DataPersistence io (Some ''file'') w)
        = (Inr getDefaultData, DataPersistence io (Some ''file'') w)"
    unfolding DataPersistence_file_missing [OF h] by (simp add: getData_def)
qed

theorem load_after_save_witness:
  "initializationPromise (DataPersistence machine (Some ''file'') fullDisk) = Resolved
   \<and> mode (DataPersistence machine (Some ''file'') fullDisk) = ''file''
   \<and> mkdir machine (backend (DataPersistence machine (Some ''file'') fullDisk)) = (None, fullDisk)
   \<and> writeFile machine (JSON_stringify machine doc1) fullDisk = (Some enospc, fullDisk)
   \<and> getData machine (saveData machine doc1 (DataPersistence machine (Some ''file'') fullDisk))
       = (Inr doc1, saveData machine doc1 (DataPersistence machine (Some ''file'') fullDisk))
   \<and> getDataV2 machine (saveData machine doc1 (DataPersistence machine (Some ''file'') fullDisk))
       = (Some doc1, saveData machine doc1 (DataPersistence machine (Some ''file'') fullDisk))
   \<and> dataFile (backend (saveData machine doc1 (DataPersistence machine (Some ''file'') fullDisk)))
       = Some (Json (Some getDefaultData))
   \<and> initializationPromise ((DataPersistence machine (Some ''redis'') emptyDisk)\<lparr>backend := fullDisk\<rparr>)
       = Resolved
   \<and> mode ((DataPersistence machine (Some ''redis'') emptyDisk)\<lparr>backend := fullDisk\<rparr>) = ''redis''
   \<and> redis_set machine (JSON_stringify machine doc1)
        (backend ((DataPersistence machine (Some ''redis'') emptyDisk)\<lparr>backend := fullDisk\<rparr>))
       = (Some redisDown, fullDisk)
   \<and> getData machine
        (saveData machine doc1 ((DataPersistence machine (Some ''redis'') emptyDisk)\<lparr>backend := fullDisk\<rparr>))
       = (Inr doc1,
          saveData machine doc1 ((DataPersistence machine (Some ''redis'') emptyDisk)\<lparr>backend := fullDisk\<rparr>))
   \<and> io_trace
        (saveData machine doc1 ((DataPersistence machine (Some ''redis'') emptyDisk)\<lparr>backend := fullDisk\<rparr>))
       = io_trace (DataPersistence machine (Some ''redis'') emptyDisk)
         @ [RedisSet (JSON_stringify machine doc1) (Some redisDown), PLog (LogSaveFailed redisDown)]
   \<and> fst (saveSetting machine ''theme'' (JStr ''dark'')
              (DataPersistence machine (Some ''file'') fullDisk)) = Inr ()
   \<and> (\<exists>d. snd (saveSetting machine ''theme'' (JStr ''dark'')
                  (DataPersistence machine (Some ''file'') fullDisk))
             = saveData machine d (DataPersistence machine (Some ''file'') fullDisk)
          \<and> getData machine (snd (saveSetting machine ''theme'' (JStr ''dark'')
                  (DataPersistence machine (Some ''file'') fullDisk)))
             = (Inr d, snd (saveSetting machine ''theme'' (JStr ''dark'')
                  (DataPersistence machine (Some ''file'') fullDisk))))
   \<and> fst (getData machine (snd (saveSetting machine ''theme'' (JStr ''dark'')
                  (DataPersistence machine (Some ''file'') fullDisk))))
       = Inr (getDefaultData\<lparr>settings := Some \<lparr>own = [''theme'' \<mapsto> JStr ''dark''], plain = True\<rparr>\<rparr>)
   \<and> dataFile (backend (snd (saveSetting machine ''theme'' (JStr ''dark'')
                  (DataPersistence machine (Some ''file'') fullDisk))))
       = Some (Json (Some getDefaultData))
   \<and> fst (saveAccount machine ''b@x'' [''token'' \<mapsto> JStr ''t-b''] loaded) = Inr ()
   \<and> (\<exists>d. snd (saveAccount machine ''b@x'' [''token'' \<mapsto> JStr ''t-b''] loaded)
             = saveData machine d loaded
          \<and> getData machine (snd (saveAccount machine ''b@x'' [''token'' \<mapsto> JStr ''t-b''] loaded))
             = (Inr d, snd (saveAccount machine ''b@x'' [''token'' \<mapsto> JStr ''t-b''] loaded)))
   \<and> fst (saveProxyBinding machine ''b@x'' (Some p2) loaded) = Inr ()
   \<and> (\<exists>d. snd (saveProxyBinding machine ''b@x'' (Some p2) loaded) = saveData machine d loaded
          \<and> getData machine (snd (saveProxyBinding machine ''b@x'' (Some p2) loaded))
             = (Inr d, snd (saveProxyBinding machine ''b@x'' (Some p2) loaded)))
   \<and> fst (saveProxyStatuses machine Map.empty loaded) = Inr ()
   \<and> (\<exists>d. snd (saveProxyStatuses machine Map.empty loaded) = saveData machine d loaded
          \<and> getData machine (snd (saveProxyStatuses machine Map.empty loaded))
             = (Inr d, snd (saveProxyStatuses machine Map.empty loaded)))
   \<and> fst (saveProxyBinding machine ''a@x'' (Some p1)
              (DataPersistence machine (Some ''file'') accountsOnlyDisk)) = Inl undefinedPropertyError
   \<and> snd (saveProxyBinding machine ''a@x'' (Some p1)
              (DataPersistence machine (Some ''file'') accountsOnlyDisk))
       = DataPersistence machine (Some ''file'') accountsOnlyDisk
   \<and> readFile machine emptyDisk = (Inl enoent, emptyDisk)
   \<and> err_code enoent = Some ''ENOENT''
   \<and> getData machine (DataPersistence machine (Some ''file'') emptyDisk)
       = (Inr getDefaultData, DataPersistence machine (Some ''file'') emptyDisk)"
proof -
  define s where "s = DataPersistence machine (Some ''file'') fullDisk"
  define r where "r = (DataPersistence machine (Some ''redis'') emptyDisk)\<lparr>backend := fullDisk\<rparr>"
  define t where "t = DataPersistence machine (Some ''file'') accountsOnlyDisk"
  have a1: "initializationPromise s = Resolved" by (simp add: s_def machine_simps)
  have a2: "mode s = ''file''" by (simp add: s_def machine_simps)
  have a3: "mkdir machine (backend s) = (None, fullDisk)" by (simp add: s_def machine_simps)
  have a4: "writeFile machine (JSON_stringify machine doc1) fullDisk = (Some enospc, fullDisk)"
    by (simp add: machine_simps)
  have b1: "initializationPromise r = Resolved" by (simp add: r_def machine_simps)
  have b2: "mode r = ''redis''" by (simp add: r_def machine_simps)
  have b3: "redis_set machine (JSON_stringify machine doc1) (backend r) = (Some redisDown, fullDisk)"
    by (simp add: r_def machine_simps)
  have b4: "io_trace r = io_trace (DataPersistence machine (Some ''redis'') emptyDisk)"
    by (simp add: r_def)
  note A = load_after_save [where s = s and io = machine and doc = doc1 and ?w1.0 = fullDisk
             and writeError = enospc and ?w2.0 = fullDisk and key = "''theme''" and u = "()"
             and ss = "snd (saveSetting machine ''theme'' (JStr ''dark'') s)"]
  note B = load_after_save [where s = r and io = machine and doc = doc1 and ?w1.0 = fullDisk
             and writeError = redisDown]
  from A a1 have A1: "getData machine (saveData machine doc1 s) = (Inr doc1, saveData machine doc1 s)"
    by blast
  from A have A1': "getDataV2 machine (saveData machine doc1 s) = (Some doc1, saveData machine doc1 s)"
    by blast
  from A a2 a3 a4 have "saveData machine doc1 s =
        s\<lparr>cache := Some doc1, backend := fullDisk,
          io_trace := io_trace s @ [Mkdir None, WriteFile (JSON_stringify machine doc1) (Some enospc),
                                    PLog (LogSaveFailed enospc)]\<rparr>"
    by blast
  then have A2: "dataFile (backend (saveData machine doc1 s)) = Some (Json (Some getDefaultData))"
    by (simp add: fullDisk_def)
  from B b1 have B1: "getData machine (saveData machine doc1 r) = (Inr doc1, saveData machine doc1 r)"
    by blast
  from B b2 b3 have "saveData machine doc1 r =
        r\<lparr>cache := Some doc1, backend := fullDisk,
          io_trace := io_trace r @ [RedisSet (JSON_stringify machine doc1) (Some redisDown),
                                    PLog (LogSaveFailed redisDown)]\<rparr>"
    by blast
  with b4 have B3: "io_trace (saveData machine doc1 r) =
         io_trace (DataPersistence machine (Some ''redis'') emptyDisk)
         @ [RedisSet (JSON_stringify machine doc1) (Some redisDown), PLog (LogSaveFailed redisDown)]"
    by simp
  \<comment> \<open>the mutators\<close>
  have c1: "fst (saveSetting machine ''theme'' (JStr ''dark'') s) = Inr ()"
    by (simp add: s_def loaded_simps)
  from A pair_of_fst [OF c1]
  have C1: "\<exists>d. snd (saveSetting machine ''theme'' (JStr ''dark'') s) = saveData machine d s
          \<and> getData machine (snd (saveSetting machine ''theme'' (JStr ''dark'') s))
             = (Inr d, snd (saveSetting machine ''theme'' (JStr ''dark'') s))"
    by blast
  have C2: "fst (getData machine (snd (saveSetting machine ''theme'' (JStr ''dark'') s)))
       = Inr (getDefaultData\<lparr>settings := Some \<lparr>own = [''theme'' \<mapsto> JStr ''dark''], plain = True\<rparr>\<rparr>)"
    by (simp add: s_def loaded_simps)
  have C3: "dataFile (backend (snd (saveSetting machine ''theme'' (JStr ''dark'') s)))
       = Some (Json (Some getDefaultData))"
    by (simp add: s_def loaded_simps)
  have d1: "fst (saveAccount machine ''b@x'' [''token'' \<mapsto> JStr ''t-b''] loaded) = Inr ()"
    by (simp add: loaded_simps)
  from load_after_save [where s = loaded and io = machine and email = "''b@x''"
         and accountData = "[''token'' \<mapsto> JStr ''t-b'']" and u = "()"
         and sa = "snd (saveAccount machine ''b@x'' [''token'' \<mapsto> JStr ''t-b''] loaded)"]
       pair_of_fst [OF d1]
  have D1: "\<exists>d. snd (saveAccount machine ''b@x'' [''token'' \<mapsto> JStr ''t-b''] loaded)
             = saveData machine d loaded
          \<and> getData machine (snd (saveAccount machine ''b@x'' [''token'' \<mapsto> JStr ''t-b''] loaded))
             = (Inr d, snd (saveAccount machine ''b@x'' [''token'' \<mapsto> JStr ''t-b''] loaded))"
    by blast
  have e1: "fst (saveProxyBinding machine ''b@x'' (Some p2) loaded) = Inr ()"
    by (simp add: loaded_simps)
  from load_after_save [where s = loaded and io = machine and email = "''b@x''"
         and proxyUrl = "Some p2" and u = "()"
         and sb = "snd (saveProxyBinding machine ''b@x'' (Some p2) loaded)"]
       pair_of_fst [OF e1]
  have E1: "\<exists>d. snd (saveProxyBinding machine ''b@x'' (Some p2) loaded) = saveData machine d loaded
          \<and> getData machine (snd (saveProxyBinding machine ''b@x'' (Some p2) loaded))
             = (Inr d, snd (saveProxyBinding machine ''b@x'' (Some p2) loaded))"
    by blast
  have f1: "fst (saveProxyStatuses machine Map.empty loaded) = Inr ()"
    by (simp add: loaded_simps saveProxyStatuses_def)
  from load_after_save [where s = loaded and io = machine and statuses = Map.empty and u = "()"
         and sp = "snd (saveProxyStatuses machine Map.empty loaded)"]
       pair_of_fst [OF f1]
  have F1: "\<exists>d. snd (saveProxyStatuses machine Map.empty loaded) = saveData machine d loaded
          \<and> getData machine (snd (saveProxyStatuses machine Map.empty loaded))
             = (Inr d, snd (saveProxyStatuses machine Map.empty loaded))"
    by blast
  \<comment> \<open>a mutator that throws\<close>
  have g1: "fst (saveProxyBinding machine ''a@x'' (Some p1) t) = Inl undefinedPropertyError"
    by (simp add: t_def loaded_simps accountsOnlyDisk_def accountsOnly_def)
  from load_after_save [where s = t and io = machine and email = "''a@x''"
         and proxyUrl = "Some p1" and e = undefinedPropertyError
         and sb = "snd (saveProxyBinding machine ''a@x'' (Some p1) t)"]
       pair_of_fst [OF g1]
  have G1: "snd (saveProxyBinding machine ''a@x'' (Some p1) t) = t"
    by blast
  \<comment> \<open>the save of the default document\<close>
  have h1: "readFile machine emptyDisk = (Inl enoent, emptyDisk)"
    by (simp add: machine_def emptyDisk_def)
  have h2: "err_code enoent = Some ''ENOENT''" by (simp add: enoent_def)
  from load_after_save [where io = machine and w = emptyDisk and readError = enoent
         and ?w3.0 = emptyDisk] h1 h2
  have H1: "getData machine (DataPersistence machine (Some ''file'') emptyDisk)
       = (Inr getDefaultData, DataPersistence machine (Some ''file'') emptyDisk)"
    by blast
  show ?thesis
    using a1 a2 a3 a4 A1 A1' A2 b1 b2 b3 B1 B3 c1 C1 C2 C3 d1 D1 e1 E1 f1 F1 g1 G1 h1 h2 H1
    unfolding s_def r_def t_def by (intro conjI)
qed

end
